theory Spec2Isabelle
  imports Complex_Main "HOL-Library.Word" "HOL-Library.Product_Lexorder"
begin

section \<open>Uniform support of SLA islands: the data model\<close>

text \<open>
  The development follows \<^verbatim>\<open>src/libslic3r/SLA/SupportIslands/UniformSupportIsland.cpp\<close>.
  Coordinates (\<^verbatim>\<open>coord_t\<close>) are integers in nanometres and are modelled as \<open>int\<close>;
  \<^verbatim>\<open>size_t\<close> is a 64-bit word, because the iteration counter of \<^verbatim>\<open>align_samples\<close>
  wraps around. A \<^verbatim>\<open>double\<close> is idealised as an exact rational; a cast to
  \<^verbatim>\<open>coord_t\<close> truncates towards zero. Assertions are compiled out (release build).
  A function returns \<open>None\<close> where the C++ does not return normally: a loop that
  never ends, or undefined behaviour such as reading an empty optional.
\<close>

type_synonym coord_t = int
type_synonym size_t = "64 word"
type_synonym point = "coord_t \<times> coord_t"
type_synonym points = "point list"
type_synonym polygon = "point list"
type_synonym line = "point \<times> point"

text \<open>C++ integer division truncates towards zero; \<open>div\<close> on \<open>int\<close> rounds down.\<close>

definition cdiv :: "int \<Rightarrow> int \<Rightarrow> int" where
  "cdiv a b = sgn a * sgn b * (\<bar>a\<bar> div \<bar>b\<bar>)"

definition to_coord :: "rat \<Rightarrow> coord_t" where
  "to_coord r = (if r < 0 then - \<lfloor>- r\<rfloor> else \<lfloor>r\<rfloor>)"

definition point_div :: "point \<Rightarrow> int \<Rightarrow> point" where
  "point_div p k = (cdiv (fst p) k, cdiv (snd p) k)"

definition point_add :: "point \<Rightarrow> point \<Rightarrow> point" where
  "point_add p q = (fst p + fst q, snd p + snd q)"

record expolygon =
  contour :: polygon
  holes :: "polygon list"

definition empty_expolygon :: expolygon where
  "empty_expolygon = \<lparr>contour = [], holes = []\<rparr>"

text \<open>\<^verbatim>\<open>ExPolygon::empty()\<close>: the contour has no points.\<close>

definition is_empty :: "expolygon \<Rightarrow> bool" where
  "is_empty e = (contour e = [])"

text \<open>\<^verbatim>\<open>to_lines\<close>: the closed sequence of segments of a polygon, contour first, then holes.\<close>

definition polygon_lines :: "polygon \<Rightarrow> line list" where
  "polygon_lines p = (if p = [] then [] else zip p (tl p @ [hd p]))"

definition to_lines :: "expolygon \<Rightarrow> line list" where
  "to_lines e = polygon_lines (contour e) @ concat (map polygon_lines (holes e))"

subsection \<open>The skeleton graph, as an arena\<close>

text \<open>
  A \<^verbatim>\<open>VoronoiGraph::Node::Neighbor\<close> is a directed edge. Pointers become indices
  into the list of all neighbors; \<open>node\<close> is the target node, \<open>twin\<close> the index of
  the reverse edge, \<open>source_index\<close> and \<open>twin_source_index\<close> the island lines of the
  two Voronoi cells beside the edge.
\<close>

record neighbor =
  node :: nat
  length_n :: rat
  min_width :: coord_t
  max_width :: coord_t
  twin :: nat
  source_index :: nat
  twin_source_index :: nat

record voronoi_graph =
  neighbors :: "neighbor list"
  node_neighbors :: "nat list list"

record position =
  neighbor :: nat
  ratio :: rat

text \<open>\<^verbatim>\<open>Position::calc_distance\<close>: \<^verbatim>\<open>static_cast<coord_t>(ratio * neighbor->length())\<close>.\<close>

definition calc_distance :: "voronoi_graph \<Rightarrow> position \<Rightarrow> coord_t" where
  "calc_distance g p = to_coord (ratio p * length_n (neighbors g ! neighbor p))"

record ex_path =
  nodes :: "nat list"
  length_p :: rat

subsection \<open>Configuration and support points\<close>

record sample_config =
  head_radius :: coord_t
  simplification_tolerance :: rat
  thin_max_distance :: coord_t
  thick_inner_max_distance :: coord_t
  thick_outline_max_distance :: coord_t
  minimal_distance_from_outline :: coord_t
  maximal_distance_from_outline :: coord_t
  max_align_distance :: coord_t
  min_part_length :: coord_t
  thin_max_width :: coord_t
  thick_min_width :: coord_t
  count_iteration :: size_t
  minimal_move :: coord_t
  max_length_for_one_support_point :: coord_t
  max_length_for_two_support_points :: coord_t
  max_length_ratio_for_two_support_points :: rat

datatype support_type =
    one_bb_center_point | one_center_point | two_points | two_points_backup
  | thin_part | thin_part_change | thin_part_loop
  | thick_part_outline | thick_part_inner

text \<open>
  The four classes of support points differ in how they may move during alignment.
  An outline point keeps the index of its line in the run, its ratio on that line
  and the run of lines; \<open>circle\<close> tells a closed run from an open one.
\<close>

record restriction =
  lines_r :: "line list"
  lengths_r :: "rat list"
  max_align_distance_r :: coord_t
  circle :: bool

datatype movement =
    NoMove
  | Center position
  | Outline nat rat restriction
  | Inner expolygon

record support_island_point =
  point :: point
  type :: support_type
  movement :: movement

type_synonym support_island_points = "support_island_point list"

text \<open>
  Modelled from the spec: \<^verbatim>\<open>SupportIslandPoint::can_move\<close> is declared outside the
  sources at hand. A fixed point cannot move during alignment; skeleton, outline and
  interior points can.
\<close>

definition can_move :: "support_island_point \<Rightarrow> bool" where
  "can_move s = (movement s \<noteq> NoMove)"

subsection \<open>External collaborators\<close>

text \<open>
  Geometry that lives outside the sources at hand is a parameter of the model.
  For alignment: the Voronoi cells of the support points, polygon clipping,
  \<^verbatim>\<open>Polygon::contains\<close>, \<^verbatim>\<open>Polygon::centroid\<close> and the restricted \<^verbatim>\<open>move\<close>
  of the movable point classes.
\<close>

record collaborators =
  create_voronoi_cells_cgal :: "points \<Rightarrow> coord_t \<Rightarrow> polygon list"
  intersection :: "polygon \<Rightarrow> expolygon \<Rightarrow> polygon list"
  polygon_contains :: "polygon \<Rightarrow> point \<Rightarrow> bool"
  centroid :: "polygon \<Rightarrow> point"
  move_restricted :: "support_island_point \<Rightarrow> point \<Rightarrow> support_island_point \<times> coord_t"

text \<open>
  \<^verbatim>\<open>SupportIslandPoint::move\<close>. Modelled from the spec for the fixed class, whose
  code is outside the sources at hand: a fixed point does nothing and reports no
  displacement. The other classes apply their restriction (a collaborator).
\<close>

definition move :: "collaborators \<Rightarrow> support_island_point \<Rightarrow> point \<Rightarrow> support_island_point \<times> coord_t" where
  "move E s destination =
     (case movement s of NoMove \<Rightarrow> (s, 0) | _ \<Rightarrow> move_restricted E s destination)"

definition to_points :: "support_island_points \<Rightarrow> points" where
  "to_points supports = map point supports"

section \<open>Alignment\<close>

subsection \<open>\<^verbatim>\<open>move_duplicit_positions\<close>\<close>

text \<open>
  \<^verbatim>\<open>cmp_index\<close> orders indices by the x and then the y coordinate of their points,
  which is the lexicographic order on pairs. \<^verbatim>\<open>std::sort\<close> leaves the order of
  equal elements open; the model sorts by insertion and keeps equal elements in
  their order, which is what the insertion sort of the standard libraries does on the
  short ranges used here.
\<close>

definition cmp_index :: "points \<Rightarrow> nat \<Rightarrow> nat \<Rightarrow> bool" where
  "cmp_index aligned a_index b_index =
     (fst (aligned ! a_index) < fst (aligned ! b_index)
      \<or> (fst (aligned ! a_index) = fst (aligned ! b_index)
          \<and> snd (aligned ! a_index) < snd (aligned ! b_index)))"

fun insert_by :: "('a \<Rightarrow> 'a \<Rightarrow> bool) \<Rightarrow> 'a \<Rightarrow> 'a list \<Rightarrow> 'a list" where
  "insert_by lt a [] = [a]"
| "insert_by lt a (b # bs) = (if lt a b then a # b # bs else b # insert_by lt a bs)"

definition sort_by :: "('a \<Rightarrow> 'a \<Rightarrow> bool) \<Rightarrow> 'a list \<Rightarrow> 'a list" where
  "sort_by lt xs = foldl (\<lambda>acc a. insert_by lt a acc) [] xs"

text \<open>The lambda \<^verbatim>\<open>get_duplicit_index\<close>; the caller guarantees a non-empty \<open>sorted\<close>.\<close>

fun get_duplicit_from :: "point \<Rightarrow> nat list \<Rightarrow> points \<Rightarrow> nat option" where
  "get_duplicit_from prev_p [] aligned = None"
| "get_duplicit_from prev_p (i # rest) aligned =
     (if prev_p = aligned ! i then Some i else get_duplicit_from (aligned ! i) rest aligned)"

definition get_duplicit_index :: "nat list \<Rightarrow> points \<Rightarrow> nat" where
  "get_duplicit_index sorted_ids aligned =
     (case get_duplicit_from (aligned ! hd sorted_ids) (tl sorted_ids) aligned of
        Some i \<Rightarrow> i
      | None \<Rightarrow> length sorted_ids)"

text \<open>
  The \<^verbatim>\<open>do ... while (true)\<close> loop. It ends only when no two points are equal, so it
  is a partial function: \<open>None\<close> stands for the loop that never returns.
\<close>

partial_function (option) move_duplicit_loop ::
  "collaborators \<Rightarrow> points \<Rightarrow> support_island_points \<Rightarrow> points \<Rightarrow> nat list
     \<Rightarrow> support_island_points option" where
  "move_duplicit_loop E prev_position supports aligned sorted_ids =
     (let duplicit_index = get_duplicit_index sorted_ids aligned in
      if duplicit_index \<ge> length sorted_ids then Some supports
      else
        (let new_pos = point_add (point_div (prev_position ! duplicit_index) 2)
                                 (point_div (aligned ! duplicit_index) 2);
             moved = fst (move E (supports ! duplicit_index) new_pos);
             supports' = supports[duplicit_index := moved];
             aligned' = aligned[duplicit_index := point moved]
         in move_duplicit_loop E prev_position supports' aligned'
              (sort_by (cmp_index aligned') sorted_ids)))"

definition move_duplicit_positions ::
  "collaborators \<Rightarrow> support_island_points \<Rightarrow> points \<Rightarrow> support_island_points option" where
  "move_duplicit_positions E supports prev_position =
     (if supports = [] then None
      else
        (let aligned = to_points supports;
             sorted_ids = sort_by (cmp_index aligned) [0 ..< length aligned]
         in move_duplicit_loop E prev_position supports aligned sorted_ids))"

subsection \<open>\<^verbatim>\<open>align_once\<close>\<close>

text \<open>The body of the loop over the supports, for one support and its cell.\<close>

definition align_support ::
  "collaborators \<Rightarrow> expolygon \<Rightarrow> polygon \<Rightarrow> support_island_point
     \<Rightarrow> support_island_point \<times> coord_t" where
  "align_support E island cell_polygon support =
     (if \<not> can_move support then (support, 0)
      else if length cell_polygon < 3 then (support, 0)
      else
        (let intersections = intersection E cell_polygon island;
             island_cell =
               (if length intersections = 1 then Some (hd intersections)
                else find (\<lambda>i. polygon_contains E i (point support)) intersections)
         in case island_cell of
              None \<Rightarrow> (support, 0)
            | Some cell \<Rightarrow> move E support (centroid E cell)))"

text \<open>
  The loop reads \<^verbatim>\<open>cell_polygons[i]\<close> for every support; with fewer cells than
  supports the read is out of range.
\<close>

fun align_supports ::
  "collaborators \<Rightarrow> expolygon \<Rightarrow> polygon list \<Rightarrow> support_island_points \<Rightarrow> coord_t
     \<Rightarrow> (support_island_points \<times> coord_t) option" where
  "align_supports E island cells [] max_move = Some ([], max_move)"
| "align_supports E island [] (s # ss) max_move = None"
| "align_supports E island (c # cells) (s # ss) max_move =
     (let (s', act_move) = align_support E island c s;
          max_move' = (if max_move < act_move then act_move else max_move)
      in case align_supports E island cells ss max_move' of
           None \<Rightarrow> None
         | Some (ss', m) \<Rightarrow> Some (s' # ss', m))"

definition align_once ::
  "collaborators \<Rightarrow> support_island_points \<Rightarrow> expolygon \<Rightarrow> sample_config
     \<Rightarrow> (support_island_points \<times> coord_t) option" where
  "align_once E supports island config =
     (let points = to_points supports;
          max_distance = max (max (thin_max_distance config) (thick_inner_max_distance config))
                             (thick_outline_max_distance config);
          cell_polygons = create_voronoi_cells_cgal E points max_distance
      in case align_supports E island cell_polygons supports 0 of
           None \<Rightarrow> None
         | Some (supports', max_move) \<Rightarrow>
             (case move_duplicit_positions E supports' points of
                None \<Rightarrow> None
              | Some supports'' \<Rightarrow> Some (supports'', max_move)))"

subsection \<open>\<^verbatim>\<open>align_samples\<close>\<close>

text \<open>
  \<^verbatim>\<open>while (--count_iteration > 1)\<close> on a \<^verbatim>\<open>size_t\<close>: the counter is decremented
  first, with wrap-around, and compared afterwards. The second component of the result
  counts the calls of \<^verbatim>\<open>align_once\<close> (the sweeps); it is not part of the C++ state.
\<close>

function align_loop ::
  "(support_island_points \<Rightarrow> (support_island_points \<times> coord_t) option) \<Rightarrow> coord_t
     \<Rightarrow> size_t \<Rightarrow> support_island_points \<Rightarrow> nat \<Rightarrow> (support_island_points \<times> nat) option" where
  "align_loop once min_move count samples sweeps =
     (if count - 1 > 1 then
        (case once samples of
           None \<Rightarrow> None
         | Some (samples', max_move) \<Rightarrow>
             if max_move < min_move then Some (samples', sweeps + 1)
             else align_loop once min_move (count - 1) samples' (sweeps + 1))
      else Some (samples, sweeps))"
  by pat_completeness auto
termination
proof (relation "measure (\<lambda>(once, min_move, count, samples, sweeps). unat (count - 1))")
  show "wf (measure (\<lambda>(once, min_move, count, samples, sweeps). unat (count - (1::size_t))))"
    by simp
next
  fix once :: "support_island_points \<Rightarrow> (support_island_points \<times> coord_t) option"
  fix min_move :: coord_t and count :: size_t and samples :: support_island_points
  fix sweeps :: nat and x2 x y
  assume "1 < count - 1"
  then have nz: "count - 1 \<noteq> 0"
    by auto
  then have "unat (count - 1 - 1) = unat (count - 1) - 1"
    by (rule unat_minus_one)
  moreover have "unat (count - 1) \<noteq> 0"
    using nz by (simp add: unat_eq_0)
  ultimately have "unat (count - 1 - 1) < unat (count - 1)"
    by simp
  then show "((once, min_move, count - 1, x2, sweeps + 1), (once, min_move, count, samples, sweeps))
       \<in> measure (\<lambda>(once, min_move, count, samples, sweeps). unat (count - 1))"
    by simp
qed

definition align_samples ::
  "collaborators \<Rightarrow> support_island_points \<Rightarrow> expolygon \<Rightarrow> sample_config
     \<Rightarrow> (support_island_points \<times> nat) option" where
  "align_samples E samples island config =
     (if length samples = 1 then Some (samples, 0)
      else if \<not> list_ex can_move samples then Some (samples, 0)
      else align_loop (\<lambda>s. align_once E s island config) (minimal_move config)
             (count_iteration config) samples 0)"

section \<open>The island sampler\<close>

subsection \<open>Collaborators of the sampler\<close>

text \<open>
  Outside the sources at hand, and parameters of the model: \<^verbatim>\<open>ExPolygon::simplify\<close>,
  the Clipper \<^verbatim>\<open>offset\<close>, the two floating-point tests of \<^verbatim>\<open>outline_offset\<close> (angle
  between directions, distance between parallel lines), \<^verbatim>\<open>Line::length\<close>, the
  construction of the Voronoi skeleton with its longest path, and the utilities of
  \<^verbatim>\<open>VoronoiGraphUtils\<close>. Two functions of the sources are taken as parameters too,
  \<^verbatim>\<open>separate_thin_thick\<close> as a whole and \<^verbatim>\<open>create_thick_field\<close>: the dispatch only
  passes their results on, and the steps of the segmentation that the properties are
  about are modelled below on their own. \<^verbatim>\<open>sample_expolygon_with_centering\<close> rotates
  by a floating-point angle and is a parameter for that reason. \<open>to_float\<close> is the
  conversion of a \<^verbatim>\<open>double\<close> to \<^verbatim>\<open>float\<close>, which rounds to the nearest value of the
  shorter format.
\<close>

record thin_part_rec =
  center :: position
  ends :: "position list"

record thick_part_rec =
  start :: nat
  ends_k :: "position list"

record field =
  border :: expolygon
  is_outline :: "bool list"
  inner :: expolygon
  field_2_inner :: "nat \<Rightarrow> nat option"

record geometry =
  simplify :: "expolygon \<Rightarrow> rat \<Rightarrow> expolygon list"
  offset :: "expolygon \<Rightarrow> rat \<Rightarrow> polygon list"
  angle_in_tolerance :: "line \<Rightarrow> line \<Rightarrow> bool"
  distance_in_tolerance :: "line \<Rightarrow> line \<Rightarrow> rat \<Rightarrow> bool"
  line_length :: "line \<Rightarrow> rat"
  create_longest_path :: "line list \<Rightarrow> voronoi_graph \<times> ex_path"
  get_max_width :: "voronoi_graph \<Rightarrow> ex_path \<Rightarrow> coord_t"
  get_position_with_width :: "voronoi_graph \<Rightarrow> nat \<Rightarrow> coord_t \<Rightarrow> line list \<Rightarrow> position"
  ends_in_distanace :: "voronoi_graph \<Rightarrow> position \<Rightarrow> coord_t \<Rightarrow> bool"
  create_edge_point :: "voronoi_graph \<Rightarrow> position \<Rightarrow> point"
  separate_thin_thick ::
    "voronoi_graph \<Rightarrow> ex_path \<Rightarrow> line list \<Rightarrow> sample_config
       \<Rightarrow> thin_part_rec list \<times> thick_part_rec list"
  create_thick_field :: "voronoi_graph \<Rightarrow> thick_part_rec \<Rightarrow> line list \<Rightarrow> sample_config \<Rightarrow> field"
  sample_expolygon_with_centering :: "expolygon \<Rightarrow> coord_t \<Rightarrow> points"
  to_float :: "rat \<Rightarrow> rat"

text \<open>
  \<^verbatim>\<open>VoronoiGraphUtils::get_twin\<close> and \<^verbatim>\<open>get_neighbor\<close> read the arena: the twin is
  stored, the neighbor from one node to the next is the first edge of the node that
  leads there (none when the nodes are not adjacent).
\<close>

definition get_twin :: "voronoi_graph \<Rightarrow> nat \<Rightarrow> nat" where
  "get_twin g n = twin (neighbors g ! n)"

definition get_neighbor :: "voronoi_graph \<Rightarrow> nat \<Rightarrow> nat \<Rightarrow> nat option" where
  "get_neighbor g from_node to_node =
     find (\<lambda>n. node (neighbors g ! n) = to_node) (node_neighbors g ! from_node)"

subsection \<open>\<^verbatim>\<open>get_center\<close> and \<^verbatim>\<open>get_simplified\<close>\<close>

text \<open>
  One coordinate of the loop body of \<^verbatim>\<open>get_center\<close>: the box grows to take the value
  \<open>v\<close> in, and the scan gives up as soon as the box is wider than \<open>max_radius\<close>.
\<close>

definition update_axis :: "coord_t \<Rightarrow> coord_t \<Rightarrow> coord_t \<Rightarrow> coord_t \<Rightarrow> (coord_t \<times> coord_t) option" where
  "update_axis lo hi v max_radius =
     (if lo > v then (if hi - v > max_radius then None else Some (v, hi))
      else if hi < v then (if v - lo > max_radius then None else Some (lo, v))
      else Some (lo, hi))"

fun get_center_loop :: "point \<Rightarrow> point \<Rightarrow> coord_t \<Rightarrow> points \<Rightarrow> (point \<times> point) option" where
  "get_center_loop mn mx max_radius [] = Some (mn, mx)"
| "get_center_loop mn mx max_radius (p # ps) =
     (case update_axis (fst mn) (fst mx) (fst p) max_radius of
        None \<Rightarrow> None
      | Some (lo_x, hi_x) \<Rightarrow>
          (case update_axis (snd mn) (snd mx) (snd p) max_radius of
             None \<Rightarrow> None
           | Some (lo_y, hi_y) \<Rightarrow> get_center_loop (lo_x, lo_y) (hi_x, hi_y) max_radius ps))"

definition get_center :: "points \<Rightarrow> coord_t \<Rightarrow> point option" where
  "get_center ps max_radius =
     (if length ps \<le> 2 then None
      else case get_center_loop (hd ps) (hd ps) max_radius (tl ps) of
             None \<Rightarrow> None
           | Some (mn, mx) \<Rightarrow> Some (point_add (point_div mn 2) (point_div mx 2)))"

fun get_expolygon_with_biggest_contour_from :: "expolygon \<Rightarrow> expolygon list \<Rightarrow> expolygon" where
  "get_expolygon_with_biggest_contour_from biggest [] = biggest"
| "get_expolygon_with_biggest_contour_from biggest (current # rest) =
     get_expolygon_with_biggest_contour_from
       (if length (contour biggest) < length (contour current) then current else biggest) rest"

definition get_simplified :: "geometry \<Rightarrow> expolygon \<Rightarrow> sample_config \<Rightarrow> expolygon" where
  "get_simplified G island config =
     (case simplify G island (simplification_tolerance config) of
        [] \<Rightarrow> island
      | e # es \<Rightarrow> get_expolygon_with_biggest_contour_from e es)"

subsection \<open>Points on the longest path\<close>

definition create_no_move_point ::
  "geometry \<Rightarrow> voronoi_graph \<Rightarrow> position \<Rightarrow> support_type \<Rightarrow> support_island_point" where
  "create_no_move_point G g pos ty =
     \<lparr>point = create_edge_point G g pos, type = ty, movement = NoMove\<rparr>"

text \<open>
  \<^verbatim>\<open>create_position_on_path(path, distance)\<close>: \<open>prev_node\<close> is the node the walk
  stands on, \<open>actual_distance\<close> the length walked. The walk falls off the path when the
  distance is longer than the path (the source asserts that it is not).
\<close>

fun create_position_on_path ::
  "voronoi_graph \<Rightarrow> rat \<Rightarrow> nat \<Rightarrow> rat \<Rightarrow> nat list \<Rightarrow> position option" where
  "create_position_on_path g distance prev_node actual_distance [] = None"
| "create_position_on_path g distance prev_node actual_distance (nd # rest) =
     (case get_neighbor g prev_node nd of
        None \<Rightarrow> None
      | Some n \<Rightarrow>
          (let actual_distance' = actual_distance + length_n (neighbors g ! n) in
           if actual_distance' \<ge> distance then
             Some \<lparr>neighbor = n,
                   ratio = 1 - (actual_distance' - distance) / length_n (neighbors g ! n)\<rparr>
           else create_position_on_path g distance nd actual_distance' rest))"

definition create_middle_path_point ::
  "geometry \<Rightarrow> voronoi_graph \<Rightarrow> ex_path \<Rightarrow> support_type \<Rightarrow> support_island_point option" where
  "create_middle_path_point G g path ty =
     (case nodes path of
        [] \<Rightarrow> None
      | first # rest \<Rightarrow>
          (case create_position_on_path g (length_p path / 2) first 0 rest of
             None \<Rightarrow> None
           | Some pos \<Rightarrow> Some (create_no_move_point G g pos ty)))"

text \<open>
  \<^verbatim>\<open>create_position_on_path(path, lines, width, max_distance)\<close>. The C++ takes
  \<open>max_distance\<close> by reference and sets it to the distance of the position it returns;
  the model returns that distance with the position.
\<close>

fun create_position_on_path_width ::
  "geometry \<Rightarrow> voronoi_graph \<Rightarrow> line list \<Rightarrow> coord_t \<Rightarrow> coord_t \<Rightarrow> nat \<Rightarrow> coord_t
     \<Rightarrow> nat list \<Rightarrow> (position \<times> coord_t) option" where
  "create_position_on_path_width G g lns width max_distance prev_node actual_distance [] = None"
| "create_position_on_path_width G g lns width max_distance prev_node actual_distance (nd # rest) =
     (case get_neighbor g prev_node nd of
        None \<Rightarrow> None
      | Some n \<Rightarrow>
          (let pos = get_position_with_width G g n width lns;
               distance = actual_distance + calc_distance g pos
           in if width \<le> max_width (neighbors g ! n) \<and> max_distance > distance then
                Some (pos, distance)
              else
                (let actual_distance' = actual_distance + to_coord (length_n (neighbors g ! n)) in
                 if actual_distance' \<ge> max_distance then
                   Some (\<lparr>neighbor = n,
                          ratio = 1 - of_int (actual_distance' - max_distance)
                                        / length_n (neighbors g ! n)\<rparr>,
                         max_distance)
                 else create_position_on_path_width G g lns width max_distance nd
                        actual_distance' rest)))"

definition side_position ::
  "geometry \<Rightarrow> voronoi_graph \<Rightarrow> line list \<Rightarrow> coord_t \<Rightarrow> coord_t \<Rightarrow> nat list
     \<Rightarrow> (position \<times> coord_t) option" where
  "side_position G g lns width max_distance path_nodes =
     (case path_nodes of
        [] \<Rightarrow> None
      | first # rest \<Rightarrow> create_position_on_path_width G g lns width max_distance first 0 rest)"

definition side_max_distance :: "ex_path \<Rightarrow> sample_config \<Rightarrow> coord_t" where
  "side_max_distance path config =
     min (maximal_distance_from_outline config)
         (to_coord (length_p path * max_length_ratio_for_two_support_points config))"

definition create_side_points ::
  "geometry \<Rightarrow> voronoi_graph \<Rightarrow> ex_path \<Rightarrow> line list \<Rightarrow> sample_config \<Rightarrow> support_type
     \<Rightarrow> support_island_points option" where
  "create_side_points G g path lns config ty =
     (let max_distance = side_max_distance path config;
          reverse_path = rev (nodes path);
          width = 2 * head_radius config
      in case side_position G g lns width max_distance (nodes path) of
           None \<Rightarrow> None
         | Some (pos1, d1) \<Rightarrow>
             (case side_position G g lns width max_distance reverse_path of
                None \<Rightarrow> None
              | Some (pos2, d2) \<Rightarrow>
                  Some [create_no_move_point G g pos1 ty, create_no_move_point G g pos2 ty]))"

subsection \<open>Thin parts: \<^verbatim>\<open>create_supports_for_thin_part\<close>\<close>

definition center_point ::
  "geometry \<Rightarrow> voronoi_graph \<Rightarrow> position \<Rightarrow> support_type \<Rightarrow> support_island_point" where
  "center_point G g pos ty = \<lparr>point = create_edge_point G g pos, type = ty, movement = Center pos\<rparr>"

text \<open>
  The inner loop \<^verbatim>\<open>while (edge_length >= curr.support_in)\<close>. It does not end when
  the support distance is not positive, so it is a partial function.
\<close>

partial_function (option) sample_edge ::
  "geometry \<Rightarrow> voronoi_graph \<Rightarrow> coord_t \<Rightarrow> nat \<Rightarrow> coord_t \<Rightarrow> coord_t
     \<Rightarrow> support_island_points \<Rightarrow> (support_island_points \<times> coord_t) option" where
  "sample_edge G g support_distance n edge_length support_in results =
     (if edge_length \<ge> support_in then
        sample_edge G g support_distance n edge_length (support_in + support_distance)
          (results @ [center_point G g
             \<lparr>neighbor = n, ratio = of_int support_in / length_n (neighbors g ! n)\<rparr>
             thin_part_change])
      else Some (results, support_in))"

text \<open>
  The successors of an edge: the edges of its target node except its twin. The first
  is followed at once, the others are pushed with the spacing still owed.
\<close>

definition next_neighbors :: "voronoi_graph \<Rightarrow> nat \<Rightarrow> nat list" where
  "next_neighbors g n =
     filter (\<lambda>m. m \<noteq> get_twin g n) (node_neighbors g ! node (neighbors g ! n))"

fun erase_first :: "('a \<Rightarrow> bool) \<Rightarrow> 'a list \<Rightarrow> 'a list" where
  "erase_first P [] = []"
| "erase_first P (a # as) = (if P a then as else a # erase_first P as)"

text \<open>
  The state of the outer loop: the current cursor (\<open>None\<close> for the null neighbor),
  the stack \<open>process\<close> (its back is the end of the list), the flag for the first
  neighbor and the points emitted so far. \<open>thin_part_step\<close> is one turn of the loop
  for a cursor that stands on the neighbor \<open>n\<close>.
\<close>

record thin_state =
  curr :: "(coord_t \<times> nat) option"
  process :: "(coord_t \<times> nat) list"
  is_first_neighbor :: bool
  results_t :: support_island_points

definition thin_part_step ::
  "geometry \<Rightarrow> voronoi_graph \<Rightarrow> thin_part_rec \<Rightarrow> sample_config \<Rightarrow> coord_t \<Rightarrow> nat
     \<Rightarrow> thin_state \<Rightarrow> thin_state option" where
  "thin_part_step G g part config support_in n st =
     (let support_distance = thin_max_distance config;
          half_support_distance = cdiv support_distance 2;
          part_end = find (\<lambda>e. neighbor e = n) (ends part);
          edge_length = (case part_end of
                           Some e \<Rightarrow> calc_distance g e
                         | None \<Rightarrow> to_coord (length_n (neighbors g ! n)))
      in case sample_edge G g support_distance n edge_length support_in (results_t st) of
           None \<Rightarrow> None
         | Some (sampled, reached) \<Rightarrow>
             (let rest = reached - edge_length in
              case part_end of
                Some e \<Rightarrow>
                  Some (st\<lparr>curr := None,
                           results_t := (if rest < half_support_distance
                                         then sampled @ [center_point G g e thin_part]
                                         else sampled)\<rparr>)
              | None \<Rightarrow>
                  if \<not> is_first_neighbor st \<and> list_ex (\<lambda>p. snd p = get_twin g n) (process st)
                  then
                    Some (st\<lparr>curr := None,
                             process := erase_first (\<lambda>p. snd p = get_twin g n) (process st),
                             results_t := (if rest < half_support_distance
                                           then sampled @ [center_point G g
                                                  \<lparr>neighbor = n, ratio = 1\<rparr> thin_part_loop]
                                           else sampled)\<rparr>)
                  else
                    (case next_neighbors g n of
                       [] \<Rightarrow> Some (st\<lparr>curr := None, is_first_neighbor := False,
                                      results_t := sampled\<rparr>)
                     | m # ms \<Rightarrow>
                         Some (st\<lparr>curr := Some (rest, m),
                                  process := process st @ map (\<lambda>k. (rest, k)) ms,
                                  is_first_neighbor := False,
                                  results_t := sampled\<rparr>))))"

partial_function (option) thin_part_loop ::
  "geometry \<Rightarrow> voronoi_graph \<Rightarrow> thin_part_rec \<Rightarrow> sample_config \<Rightarrow> thin_state
     \<Rightarrow> support_island_points option" where
  "thin_part_loop G g part config st =
     (case curr st of
        Some (support_in, n) \<Rightarrow>
          Option.bind (thin_part_step G g part config support_in n st)
            (thin_part_loop G g part config)
      | None \<Rightarrow>
          if process st = [] then Some (results_t st)
          else
            Option.bind
              (thin_part_step G g part config (fst (last (process st))) (snd (last (process st)))
                 (st\<lparr>process := butlast (process st)\<rparr>))
              (thin_part_loop G g part config))"

definition create_supports_for_thin_part ::
  "geometry \<Rightarrow> voronoi_graph \<Rightarrow> thin_part_rec \<Rightarrow> support_island_points \<Rightarrow> sample_config
     \<Rightarrow> support_island_points option" where
  "create_supports_for_thin_part G g part results config =
     (let support_distance = thin_max_distance config;
          half_support_distance = cdiv support_distance 2;
          support_in = half_support_distance + calc_distance g (center part);
          twin_start = get_twin g (neighbor (center part));
          twin_support_in = to_coord (length_n (neighbors g ! twin_start)) - support_in
                              + support_distance
      in thin_part_loop G g part config
           \<lparr>curr = Some (support_in, neighbor (center part)),
            process = [(twin_support_in, twin_start)],
            is_first_neighbor = True,
            results_t = results\<rparr>)"

subsection \<open>Thick parts: \<^verbatim>\<open>sample_outline\<close>\<close>

text \<open>
  \<^verbatim>\<open>std::round\<close> of a length, which is not negative: half goes up.
\<close>

definition round_coord :: "rat \<Rightarrow> coord_t" where
  "round_coord r = \<lfloor>r + 1 / 2\<rfloor>"

text \<open>
  Modelled from the spec: the constructor of \<^verbatim>\<open>SupportOutlineIslandPoint\<close> is outside
  the sources at hand. An outline point lies on line \<open>index\<close> of its run, at \<open>ratio\<close>
  of the way from the line's start to its end.
\<close>

definition outline_point :: "nat \<Rightarrow> rat \<Rightarrow> restriction \<Rightarrow> support_island_point" where
  "outline_point index r restr =
     (let l = lines_r restr ! index
      in \<lparr>point = (fst (fst l) + to_coord (of_int (fst (snd l) - fst (fst l)) * r),
                   snd (fst l) + to_coord (of_int (snd (snd l) - snd (fst l)) * r)),
          type = thick_part_outline,
          movement = Outline index r restr\<rparr>)"

text \<open>
  The lambda \<^verbatim>\<open>add_sample\<close>: the loop \<^verbatim>\<open>while (last_support + line_length >
  sample_distance)\<close> does not end when the sample distance is not positive. The ratio
  is computed in \<^verbatim>\<open>double\<close> and stored as a \<^verbatim>\<open>float\<close>.
\<close>

partial_function (option) add_sample_loop ::
  "geometry \<Rightarrow> coord_t \<Rightarrow> nat \<Rightarrow> restriction \<Rightarrow> coord_t \<Rightarrow> coord_t
     \<Rightarrow> support_island_points \<Rightarrow> (support_island_points \<times> coord_t) option" where
  "add_sample_loop G sample_distance index restr line_len last_support result =
     (if last_support + line_len > sample_distance then
        add_sample_loop G sample_distance index restr line_len (last_support - sample_distance)
          (result @ [outline_point index
             (to_float G (of_int (sample_distance - last_support) / (lengths_r restr ! index)))
             restr])
      else Some (result, last_support + line_len))"

definition add_sample ::
  "geometry \<Rightarrow> coord_t \<Rightarrow> nat \<Rightarrow> restriction \<Rightarrow> coord_t \<Rightarrow> support_island_points
     \<Rightarrow> (support_island_points \<times> coord_t) option" where
  "add_sample G sample_distance index restr last_support result =
     add_sample_loop G sample_distance index restr (round_coord (lengths_r restr ! index))
       last_support result"

fun add_samples ::
  "geometry \<Rightarrow> coord_t \<Rightarrow> restriction \<Rightarrow> nat list \<Rightarrow> coord_t \<Rightarrow> support_island_points
     \<Rightarrow> (support_island_points \<times> coord_t) option" where
  "add_samples G sample_distance restr [] last_support result = Some (result, last_support)"
| "add_samples G sample_distance restr (index # rest) last_support result =
     (case add_sample G sample_distance index restr last_support result of
        None \<Rightarrow> None
      | Some (result', last_support') \<Rightarrow>
          add_samples G sample_distance restr rest last_support' result')"

text \<open>
  What \<^verbatim>\<open>add_circle_sample\<close> and \<^verbatim>\<open>add_lines_samples\<close> share once the lines of the
  run are collected: the lengths, the restriction, the first \<open>last_support\<close> and the
  loop over the lines.
\<close>

definition sample_run ::
  "geometry \<Rightarrow> sample_config \<Rightarrow> bool \<Rightarrow> line list \<Rightarrow> support_island_points
     \<Rightarrow> support_island_points option" where
  "sample_run G config is_circle lns result =
     (let lengths = map (line_length G) lns;
          restr = \<lparr>lines_r = lns, lengths_r = lengths,
                   max_align_distance_r = max_align_distance config, circle = is_circle\<rparr>;
          sample_distance = thick_outline_max_distance config;
          last_support = cdiv (min (to_coord (sum_list lengths)) sample_distance) 2
      in map_option fst
           (add_samples G sample_distance restr [0 ..< length lns] last_support result))"

definition add_circle_sample ::
  "geometry \<Rightarrow> sample_config \<Rightarrow> polygon \<Rightarrow> support_island_points
     \<Rightarrow> support_island_points option" where
  "add_circle_sample G config poly result = sample_run G config True (polygon_lines poly) result"

definition add_lines_samples ::
  "geometry \<Rightarrow> sample_config \<Rightarrow> line list \<Rightarrow> nat \<Rightarrow> nat \<Rightarrow> support_island_points
     \<Rightarrow> support_island_points option" where
  "add_lines_samples G config inner_lines first_index last_index result =
     (let last_index' = last_index + 1;
          lns = (if first_index > last_index'
                 then drop first_index inner_lines @ take last_index' inner_lines
                 else take (last_index' - first_index) (drop first_index inner_lines))
      in sample_run G config False lns result)"

text \<open>
  \<^verbatim>\<open>convert_index_item->second - index_offset\<close> is a subtraction of \<^verbatim>\<open>size_t\<close>: it wraps
  around when the offset is the larger one.
\<close>

definition size_sub :: "nat \<Rightarrow> nat \<Rightarrow> nat" where
  "size_sub a b = unat ((of_nat a :: size_t) - of_nat b)"

text \<open>
  The body of the \<^verbatim>\<open>for\<close> loop of the lambda \<^verbatim>\<open>sample_polygon\<close>, for one index of the
  polygon. The state is \<open>inner_first\<close>, \<open>inner_last\<close> (\<open>None\<close> for the invalid index)
  and the points so far.
\<close>

definition sample_polygon_step ::
  "geometry \<Rightarrow> sample_config \<Rightarrow> field \<Rightarrow> line list \<Rightarrow> nat \<Rightarrow> nat
     \<Rightarrow> ((nat \<times> nat) option \<times> support_island_points)
     \<Rightarrow> ((nat \<times> nat) option \<times> support_island_points) option" where
  "sample_polygon_step G config fld inner_lines index_offset polygon_index st =
     (let index = polygon_index + index_offset in
      if \<not> is_outline fld ! index then
        (case fst st of
           None \<Rightarrow> Some st
         | Some (inner_first, inner_last) \<Rightarrow>
             map_option (\<lambda>r. (None, r))
               (add_lines_samples G config inner_lines inner_first inner_last (snd st)))
      else
        (case field_2_inner fld index of
           None \<Rightarrow> Some st
         | Some inner_index \<Rightarrow>
             (let inner_last' = size_sub inner_index index_offset in
              case fst st of
                None \<Rightarrow> Some (Some (inner_last', inner_last'), snd st)
              | Some (inner_first, inner_last) \<Rightarrow> Some (Some (inner_first, inner_last'), snd st))))"

fun sample_polygon_for ::
  "geometry \<Rightarrow> sample_config \<Rightarrow> field \<Rightarrow> line list \<Rightarrow> nat \<Rightarrow> nat list
     \<Rightarrow> ((nat \<times> nat) option \<times> support_island_points)
     \<Rightarrow> ((nat \<times> nat) option \<times> support_island_points) option" where
  "sample_polygon_for G config fld inner_lines index_offset [] st = Some st"
| "sample_polygon_for G config fld inner_lines index_offset (i # rest) st =
     (case sample_polygon_step G config fld inner_lines index_offset i st of
        None \<Rightarrow> None
      | Some st' \<Rightarrow> sample_polygon_for G config fld inner_lines index_offset rest st')"

text \<open>
  The lambda \<^verbatim>\<open>sample_polygon\<close>. The \<^verbatim>\<open>do\<close> loop looks for the first outline index
  after the first change, cyclically; the \<^verbatim>\<open>for\<close> loop then visits the indices from
  there up to \<open>stop_index\<close>, wrapping at the size of the polygon. The source asserts
  that \<open>is_outline\<close> covers every index it reads; the model gives \<open>None\<close> when
  \<open>is_outline\<close> is too short for the polygon.
\<close>

definition sample_polygon ::
  "geometry \<Rightarrow> sample_config \<Rightarrow> field \<Rightarrow> polygon \<Rightarrow> polygon \<Rightarrow> nat \<Rightarrow> support_island_points
     \<Rightarrow> support_island_points option" where
  "sample_polygon G config fld poly inner_polygon index_offset result =
     (if inner_polygon = [] then Some result
      else if length (is_outline fld) < index_offset + length poly then None
      else
        (case find (\<lambda>i. \<not> is_outline fld ! (i + index_offset)) [0 ..< length poly] of
           None \<Rightarrow> add_circle_sample G config inner_polygon result
         | Some first_change_index \<Rightarrow>
             (let inner_lines = polygon_lines inner_polygon;
                  stop_index = (if first_change_index = 0 then length poly
                                else first_change_index);
                  found = find (\<lambda>i. is_outline fld ! (i + index_offset))
                            [first_change_index + 1 ..< length poly]
              in if found = None \<and> first_change_index = 0 then Some result
                 else
                   (let begin_index = (case found of Some i \<Rightarrow> i | None \<Rightarrow> 0);
                        visited = (if begin_index \<le> stop_index then [begin_index ..< stop_index]
                                   else [begin_index ..< length poly] @ [0 ..< stop_index])
                    in case sample_polygon_for G config fld inner_lines index_offset visited
                              (None, result) of
                         None \<Rightarrow> None
                       | Some (None, result') \<Rightarrow> Some result'
                       | Some (Some (inner_first, inner_last), result') \<Rightarrow>
                           add_lines_samples G config inner_lines inner_first inner_last
                             result'))))"

fun sample_holes ::
  "geometry \<Rightarrow> sample_config \<Rightarrow> field \<Rightarrow> polygon list \<Rightarrow> polygon list \<Rightarrow> nat
     \<Rightarrow> support_island_points \<Rightarrow> support_island_points option" where
  "sample_holes G config fld (hole # hs) (inner_hole # ihs) index_offset result =
     (case sample_polygon G config fld hole inner_hole index_offset result of
        None \<Rightarrow> None
      | Some result' \<Rightarrow> sample_holes G config fld hs ihs (index_offset + length hole) result')"
| "sample_holes G config fld hs ihs index_offset result = Some result"

definition sample_outline ::
  "geometry \<Rightarrow> field \<Rightarrow> sample_config \<Rightarrow> support_island_points option" where
  "sample_outline G fld config =
     (if length (contour (inner fld)) < 3 then Some []
      else
        (case sample_polygon G config fld (contour (border fld)) (contour (inner fld)) 0 [] of
           None \<Rightarrow> None
         | Some result \<Rightarrow>
             if length (holes (border fld)) \<noteq> length (holes (inner fld)) then Some result
             else sample_holes G config fld (holes (border fld)) (holes (inner fld))
                    (length (contour (border fld))) result))"

subsection \<open>\<^verbatim>\<open>outline_offset\<close> and the thick part\<close>

text \<open>
  The converter of \<^verbatim>\<open>outline_offset\<close> pairs a line of the island with the first
  offset line that overlaps it on the major axis of its direction, has its direction
  within the angle tolerance and lies at the offset distance within the distance
  tolerance. The last two tests are floating-point tests (collaborators).
\<close>

definition majorit_axis :: "line \<Rightarrow> point \<Rightarrow> coord_t" where
  "majorit_axis l = (if \<bar>fst (snd l) - fst (fst l)\<bar> > \<bar>snd (snd l) - snd (fst l)\<bar> then fst else snd)"

definition matches_offset_line :: "geometry \<Rightarrow> rat \<Rightarrow> line \<Rightarrow> line \<Rightarrow> bool" where
  "matches_offset_line G offset_delta island_line offset_line =
     (let ax = majorit_axis island_line;
          start1 = min (ax (fst island_line)) (ax (snd island_line));
          end1 = max (ax (fst island_line)) (ax (snd island_line));
          start2 = min (ax (fst offset_line)) (ax (snd offset_line));
          end2 = max (ax (fst offset_line)) (ax (snd offset_line))
      in \<not> (start1 > end2 \<or> start2 > end1)
         \<and> angle_in_tolerance G island_line offset_line
         \<and> distance_in_tolerance G island_line offset_line offset_delta)"

fun find_index_from :: "('a \<Rightarrow> bool) \<Rightarrow> nat \<Rightarrow> 'a list \<Rightarrow> nat option" where
  "find_index_from P i [] = None"
| "find_index_from P i (a # as) = (if P a then Some i else find_index_from P (Suc i) as)"

definition outline_offset ::
  "geometry \<Rightarrow> expolygon \<Rightarrow> rat \<Rightarrow> expolygon \<times> (nat \<Rightarrow> nat option)" where
  "outline_offset G island offset_delta =
     (case offset G island (- offset_delta) of
        [] \<Rightarrow> (empty_expolygon, Map.empty)
      | front # rest \<Rightarrow>
          (let offseted = \<lparr>contour = front, holes = rest\<rparr>;
               island_lines = to_lines island;
               offset_lines = to_lines offseted
           in (offseted,
               (\<lambda>island_line_index.
                  if island_line_index < length island_lines
                  then find_index_from
                         (matches_offset_line G offset_delta (island_lines ! island_line_index))
                         0 offset_lines
                  else None))))"

definition inner_point :: "expolygon \<Rightarrow> point \<Rightarrow> support_island_point" where
  "inner_point inner_area p = \<lparr>point = p, type = thick_part_inner, movement = Inner inner_area\<rparr>"

definition create_supports_for_thick_part ::
  "geometry \<Rightarrow> voronoi_graph \<Rightarrow> thick_part_rec \<Rightarrow> support_island_points \<Rightarrow> line list
     \<Rightarrow> sample_config \<Rightarrow> support_island_points option" where
  "create_supports_for_thick_part G g part results lns config =
     (let fld = create_thick_field G g part lns config in
      if is_empty (inner fld) then Some results
      else
        (case sample_outline G fld config of
           None \<Rightarrow> None
         | Some outline_support \<Rightarrow>
             Some (results @ outline_support
                   @ map (inner_point (inner fld))
                       (sample_expolygon_with_centering G (inner fld)
                          (thick_inner_max_distance config)))))"

subsection \<open>Segmentation: interfaces between island parts\<close>

datatype island_part_type = thin | middle | thick

record island_part_change =
  position_c :: position
  part_index :: nat

record island_part =
  type_p :: island_part_type
  changes :: "island_part_change list"
  sum_lengths :: coord_t

type_synonym island_parts = "island_part list"

definition add_part ::
  "geometry \<Rightarrow> voronoi_graph \<Rightarrow> island_parts \<Rightarrow> nat \<Rightarrow> island_part_type \<Rightarrow> nat \<Rightarrow> coord_t
     \<Rightarrow> line list \<Rightarrow> sample_config \<Rightarrow> island_parts \<times> nat" where
  "add_part G g parts index to_type n limit lns config =
     (let pos = get_position_with_width G g n limit lns in
      if ends_in_distanace G g pos (min_part_length config) then (parts, index)
      else
        (let new_part_index = length parts;
             twin_position = \<lparr>neighbor = get_twin g n, ratio = 1 - ratio pos\<rparr>
         in if new_part_index = 1
               \<and> ends_in_distanace G g twin_position (min_part_length config)
            then (parts[0 := (parts ! 0)\<lparr>type_p := to_type\<rparr>], index)
            else
              (parts[index := (parts ! index)
                       \<lparr>changes := changes (parts ! index)
                                     @ [\<lparr>position_c = pos, part_index = new_part_index\<rparr>],
                        sum_lengths := sum_lengths (parts ! index) + calc_distance g pos\<rparr>]
               @ [\<lparr>type_p = to_type,
                    changes = [\<lparr>position_c = twin_position, part_index = index\<rparr>],
                    sum_lengths = calc_distance g twin_position\<rparr>],
               new_part_index)))"

text \<open>
  \<^verbatim>\<open>detect_interface\<close>: \<open>min\<close> is \<open>thick_min_width\<close>, \<open>max\<close> is \<open>thin_max_width\<close>.
  Without a new interface the length of the edge is added to the current part.
\<close>

definition no_interface :: "voronoi_graph \<Rightarrow> island_parts \<Rightarrow> nat \<Rightarrow> nat \<Rightarrow> island_parts \<times> nat" where
  "no_interface g parts index n =
     (parts[index := (parts ! index)
              \<lparr>sum_lengths := sum_lengths (parts ! index)
                               + to_coord (length_n (neighbors g ! n))\<rparr>],
      index)"

definition detect_interface ::
  "geometry \<Rightarrow> voronoi_graph \<Rightarrow> island_parts \<Rightarrow> nat \<Rightarrow> nat \<Rightarrow> line list \<Rightarrow> sample_config
     \<Rightarrow> island_parts \<times> nat" where
  "detect_interface G g parts index n lns config =
     (let mn = thick_min_width config;
          mx = thin_max_width config;
          nb = neighbors g ! n
      in case type_p (parts ! index) of
           thin \<Rightarrow>
             if max_width nb < mn then no_interface g parts index n
             else
               (let (parts', next_part_index) = add_part G g parts index middle n mn lns config in
                if max_width nb < mx then (parts', next_part_index)
                else add_part G g parts' next_part_index thick n mx lns config)
         | middle \<Rightarrow>
             if min_width nb < mn then add_part G g parts index thin n mn lns config
             else if max_width nb > mx then add_part G g parts index thick n mx lns config
             else no_interface g parts index n
         | thick \<Rightarrow>
             if max_width nb > mx then no_interface g parts index n
             else
               (let (parts', next_part_index) = add_part G g parts index middle n mx lns config in
                if min_width nb > mn then (parts', next_part_index)
                else add_part G g parts' next_part_index thin n mn lns config))"

subsection \<open>Segmentation: merging the middle parts\<close>









subsection \<open>The entry points\<close>

fun thin_parts_supports ::
  "geometry \<Rightarrow> voronoi_graph \<Rightarrow> sample_config \<Rightarrow> thin_part_rec list \<Rightarrow> support_island_points
     \<Rightarrow> support_island_points option" where
  "thin_parts_supports G g config [] supports = Some supports"
| "thin_parts_supports G g config (part # rest) supports =
     (case create_supports_for_thin_part G g part supports config of
        None \<Rightarrow> None
      | Some supports' \<Rightarrow> thin_parts_supports G g config rest supports')"

fun thick_parts_supports ::
  "geometry \<Rightarrow> voronoi_graph \<Rightarrow> line list \<Rightarrow> sample_config \<Rightarrow> thick_part_rec list
     \<Rightarrow> support_island_points \<Rightarrow> support_island_points option" where
  "thick_parts_supports G g lns config [] supports = Some supports"
| "thick_parts_supports G g lns config (part # rest) supports =
     (case create_supports_for_thick_part G g part supports lns config of
        None \<Rightarrow> None
      | Some supports' \<Rightarrow> thick_parts_supports G g lns config rest supports')"

text \<open>
  \<^verbatim>\<open>uniform_support_island\<close>. A null pointer in the result (the middle point of a
  path that is shorter than half its length) and the read of an empty optional in
  \<^verbatim>\<open>create_side_points\<close> are modelled as \<open>None\<close>.
\<close>

definition uniform_support_island ::
  "geometry \<Rightarrow> collaborators \<Rightarrow> expolygon \<Rightarrow> sample_config \<Rightarrow> support_island_points option" where
  "uniform_support_island G E island config =
     (let simplified_island = get_simplified G island config in
      case get_center (contour simplified_island) (head_radius config) of
        Some c \<Rightarrow> Some [\<lparr>point = c, type = one_bb_center_point, movement = NoMove\<rparr>]
      | None \<Rightarrow>
          (let lns = to_lines simplified_island;
               (skeleton, longest_path) = create_longest_path G lns
           in if length_p longest_path < of_int (max_length_for_one_support_point config) then
                map_option (\<lambda>s. [s])
                  (create_middle_path_point G skeleton longest_path one_center_point)
              else if get_max_width G skeleton longest_path < thin_max_width config
                      \<and> length_p longest_path < of_int (max_length_for_two_support_points config)
              then create_side_points G skeleton longest_path lns config two_points
              else
                (let (thin_parts, thick_parts) = separate_thin_thick G skeleton longest_path lns config
                 in case thin_parts_supports G skeleton config thin_parts [] of
                      None \<Rightarrow> None
                    | Some thin_supports \<Rightarrow>
                        (case thick_parts_supports G skeleton lns config thick_parts thin_supports of
                           None \<Rightarrow> None
                         | Some supports \<Rightarrow>
                             if length supports \<le> 2 then
                               create_side_points G skeleton longest_path lns config
                                 two_points_backup
                             else map_option fst (align_samples E supports island config)))))"

record peninsula =
  unsuported_area :: expolygon
  is_outline_p :: "bool list"

text \<open>
  \<^verbatim>\<open>uniform_support_peninsula\<close>. The source asserts that the inner area is not empty
  and then tests it: with assertions compiled in (\<^verbatim>\<open>NDEBUG\<close> not defined, as the file
  leaves it) an empty inner area aborts the program, without them the test returns the
  empty list. \<open>ndebug\<close> says which build it is; \<open>None\<close> is the abort.
\<close>

definition uniform_support_peninsula ::
  "geometry \<Rightarrow> collaborators \<Rightarrow> bool \<Rightarrow> peninsula \<Rightarrow> sample_config
     \<Rightarrow> support_island_points option" where
  "uniform_support_peninsula G E ndebug pen config =
     (let (inner_area, converter) =
            outline_offset G (unsuported_area pen)
              (to_float G (of_int (minimal_distance_from_outline config)));
          fld = \<lparr>border = unsuported_area pen, is_outline = is_outline_p pen,
                 inner = inner_area, field_2_inner = converter\<rparr>
      in if \<not> ndebug \<and> is_empty (inner fld) then None
         else if is_empty (inner fld) then Some []
         else
           (case sample_outline G fld config of
              None \<Rightarrow> None
            | Some results \<Rightarrow>
                map_option fst
                  (align_samples E
                     (results @ map (inner_point (inner fld))
                                  (sample_expolygon_with_centering G (inner fld)
                                     (thick_inner_max_distance config)))
                     (unsuported_area pen) config)))"

subsection \<open>Containment\<close>

text \<open>
  Modelled from the spec: \<^verbatim>\<open>ExPolygon::contains\<close> is outside the sources at hand. An
  ExPolygon is a contour with holes inside it; a point is contained when it lies
  inside or on the contour and not strictly inside a hole. Inside a polygon is decided
  by the parity of the crossings of the ray to the right of the point, in exact
  arithmetic.
\<close>

definition ray_crosses :: "point \<Rightarrow> line \<Rightarrow> bool" where
  "ray_crosses p l =
     (let a = fst l; b = snd l in
      (snd a > snd p) \<noteq> (snd b > snd p)
      \<and> (of_int (fst p - fst a) :: rat)
          < of_int (snd p - snd a) * of_int (fst b - fst a) / of_int (snd b - snd a))"

definition inside_polygon :: "polygon \<Rightarrow> point \<Rightarrow> bool" where
  "inside_polygon poly p = odd (length (filter (ray_crosses p) (polygon_lines poly)))"

definition on_line :: "point \<Rightarrow> line \<Rightarrow> bool" where
  "on_line p l =
     (let a = fst l; b = snd l in
      (fst b - fst a) * (snd p - snd a) = (snd b - snd a) * (fst p - fst a)
      \<and> min (fst a) (fst b) \<le> fst p \<and> fst p \<le> max (fst a) (fst b)
      \<and> min (snd a) (snd b) \<le> snd p \<and> snd p \<le> max (snd a) (snd b))"

definition on_polygon :: "polygon \<Rightarrow> point \<Rightarrow> bool" where
  "on_polygon poly p = list_ex (on_line p) (polygon_lines poly)"

definition expolygon_contains :: "expolygon \<Rightarrow> point \<Rightarrow> bool" where
  "expolygon_contains e p =
     ((inside_polygon (contour e) p \<or> on_polygon (contour e) p)
      \<and> \<not> list_ex (\<lambda>h. inside_polygon h p \<and> \<not> on_polygon h p) (holes e))"

text \<open>
  The claim about the smallest islands speaks of a bounding box that fits within a
  disk of the head's radius: the diagonal of the box is at most the diameter.
\<close>

definition bounding_box :: "points \<Rightarrow> point \<times> point" where
  "bounding_box ps =
     ((Min (fst ` set ps), Min (snd ` set ps)), (Max (fst ` set ps), Max (snd ` set ps)))"

definition fits_in_disk :: "points \<Rightarrow> coord_t \<Rightarrow> bool" where
  "fits_in_disk ps r =
     (let (mn, mx) = bounding_box ps in
      (fst mx - fst mn)\<^sup>2 + (snd mx - snd mn)\<^sup>2 \<le> (2 * r)\<^sup>2)"

subsection \<open>Where a side point stands\<close>

text \<open>
  The edges of a path, in the order of the walk (\<^verbatim>\<open>get_neighbor\<close> from each node to the
  next), and the length walked over a list of edges, each length truncated to a coordinate as
  \<^verbatim>\<open>create_position_on_path\<close> adds them up. The width is reached on an edge, within the
  cap, when the edge gets as wide and the position of that width on it is closer to the start of
  the path than the cap. \<open>side_placed\<close> says where the point of one side stands: on the first
  edge where the width is reached within the cap or where the length walked reaches the cap; at
  the position of the width in the first case, and in the second at the ratio that leaves
  behind it what the walk has gone beyond the cap.
\<close>

fun path_neighbors :: "voronoi_graph \<Rightarrow> nat \<Rightarrow> nat list \<Rightarrow> nat list option" where
  "path_neighbors g prev_node [] = Some []"
| "path_neighbors g prev_node (nd # rest) =
     (case get_neighbor g prev_node nd of
        None \<Rightarrow> None
      | Some n \<Rightarrow> map_option ((#) n) (path_neighbors g nd rest))"

definition walked :: "voronoi_graph \<Rightarrow> nat list \<Rightarrow> coord_t" where
  "walked g es = sum_list (map (\<lambda>e. to_coord (length_n (neighbors g ! e))) es)"

definition width_reached ::
  "geometry \<Rightarrow> voronoi_graph \<Rightarrow> line list \<Rightarrow> coord_t \<Rightarrow> coord_t \<Rightarrow> coord_t \<Rightarrow> nat \<Rightarrow> bool" where
  "width_reached G g lns width cap before e =
     (width \<le> max_width (neighbors g ! e)
      \<and> before + calc_distance g (get_position_with_width G g e width lns) < cap)"

definition cap_position :: "voronoi_graph \<Rightarrow> coord_t \<Rightarrow> nat list \<Rightarrow> nat \<Rightarrow> position" where
  "cap_position g cap es k =
     \<lparr>neighbor = es ! k,
      ratio = 1 - of_int (walked g (take (Suc k) es) - cap) / length_n (neighbors g ! (es ! k))\<rparr>"

definition side_placed ::
  "geometry \<Rightarrow> voronoi_graph \<Rightarrow> line list \<Rightarrow> coord_t \<Rightarrow> coord_t \<Rightarrow> nat list \<Rightarrow> position \<Rightarrow> bool" where
  "side_placed G g lns width cap es pos =
     list_ex (\<lambda>k.
        list_all (\<lambda>i. \<not> width_reached G g lns width cap (walked g (take i es)) (es ! i)
                      \<and> walked g (take (Suc i) es) < cap) [0 ..< k]
        \<and> (if width_reached G g lns width cap (walked g (take k es)) (es ! k)
           then pos = get_position_with_width G g (es ! k) width lns
           else cap \<le> walked g (take (Suc k) es) \<and> pos = cap_position g cap es k))
       [0 ..< length es]"

subsection \<open>The transitions on an edge\<close>

text \<open>
  The transitions that an edge causes for a part of the current type, as pairs of the type of
  the new part and the width at which the interface lies; \<open>lo\<close> is \<open>thick_min_width\<close>, \<open>hi\<close>
  is \<open>thin_max_width\<close>. This is the classification that the result of \<^verbatim>\<open>detect_interface\<close>
  is compared with. A transition is suppressed when the position of its width on the edge lies
  within \<open>min_part_length\<close> of an end of the skeleton.
\<close>

definition transitions ::
  "sample_config \<Rightarrow> island_part_type \<Rightarrow> neighbor \<Rightarrow> (island_part_type \<times> coord_t) list" where
  "transitions config current nb =
     (let lo = thick_min_width config; hi = thin_max_width config
      in case current of
           thin \<Rightarrow> if max_width nb < lo then []
                   else if max_width nb < hi then [(middle, lo)]
                   else [(middle, lo), (thick, hi)]
         | middle \<Rightarrow> if min_width nb < lo then [(thin, lo)]
                     else if hi < max_width nb then [(thick, hi)]
                     else []
         | thick \<Rightarrow> if hi < max_width nb then []
                    else if lo < min_width nb then [(middle, hi)]
                    else [(middle, hi), (thin, lo)])"

definition suppressed ::
  "geometry \<Rightarrow> voronoi_graph \<Rightarrow> nat \<Rightarrow> line list \<Rightarrow> sample_config \<Rightarrow> coord_t \<Rightarrow> bool" where
  "suppressed G g n lns config limit =
     ends_in_distanace G g (get_position_with_width G g n limit lns) (min_part_length config)"

section \<open>Concrete inputs\<close>

subsection \<open>Three interior points on a strip\<close>

text \<open>
  A strip of 60 by 20 with three interior points 20 apart on its axis. Their Voronoi
  cells, capped at distance \<open>d\<close>, are vertical bands cut at x = 20 and x = 40; clipped
  to the strip they are three squares whose centroids are the points themselves, so
  a sweep moves nothing. The collaborators below return these values: clipping and
  centroid are those of axis-aligned rectangles, and an interior point moves freely.
\<close>

definition strip_island :: expolygon where
  "strip_island = \<lparr>contour = [(0, 0), (60, 0), (60, 20), (0, 20)], holes = []\<rparr>"

definition strip_samples :: support_island_points where
  "strip_samples =
     map (\<lambda>p. \<lparr>point = p, type = thick_part_inner, movement = Inner strip_island\<rparr>)
       [(10, 10), (30, 10), (50, 10)]"

definition rect_of :: "polygon \<Rightarrow> (coord_t \<times> coord_t) \<times> (coord_t \<times> coord_t)" where
  "rect_of p = ((foldr min (map fst p) (fst (hd p)), foldr min (map snd p) (snd (hd p))),
                (foldr max (map fst p) (fst (hd p)), foldr max (map snd p) (snd (hd p))))"

definition strip_geometry :: collaborators where
  "strip_geometry =
     \<lparr>create_voronoi_cells_cgal = (\<lambda>ps d.
          [[(10 - d, 10 - d), (20, 10 - d), (20, 10 + d), (10 - d, 10 + d)],
           [(20, 10 - d), (40, 10 - d), (40, 10 + d), (20, 10 + d)],
           [(40, 10 - d), (50 + d, 10 - d), (50 + d, 10 + d), (40, 10 + d)]]),
      intersection = (\<lambda>cell island.
          (let ((a, b), (c, d)) = rect_of cell; ((e, f), (g, h)) = rect_of (contour island)
           in [[(max a e, max b f), (min c g, max b f), (min c g, min d h), (max a e, min d h)]])),
      polygon_contains = (\<lambda>p q.
          (let ((a, b), (c, d)) = rect_of p
           in a \<le> fst q \<and> fst q \<le> c \<and> b \<le> snd q \<and> snd q \<le> d)),
      centroid = (\<lambda>p. (let ((a, b), (c, d)) = rect_of p in ((a + c) div 2, (b + d) div 2))),
      move_restricted = (\<lambda>s q.
          (s\<lparr>point := q\<rparr>, max \<bar>fst q - fst (point s)\<bar> \<bar>snd q - snd (point s)\<bar>))\<rparr>"

definition strip_config :: sample_config where
  "strip_config =
     \<lparr>head_radius = 5, simplification_tolerance = 0, thin_max_distance = 100,
      thick_inner_max_distance = 100, thick_outline_max_distance = 100,
      minimal_distance_from_outline = 5, maximal_distance_from_outline = 30,
      max_align_distance = 10, min_part_length = 10, thin_max_width = 10, thick_min_width = 8,
      count_iteration = 0, minimal_move = 0, max_length_for_one_support_point = 10,
      max_length_for_two_support_points = 20, max_length_ratio_for_two_support_points = 1 / 4\<rparr>"

subsection \<open>Two interior points one unit apart\<close>






subsection \<open>Small islands\<close>

text \<open>
  An L-shaped island with arms of 0.3 mm, 0.05 mm thick; a square and a rectangle.
\<close>

definition l_island :: expolygon where
  "l_island = \<lparr>contour = [(0, 0), (300000, 0), (300000, 50000), (50000, 50000),
                           (50000, 300000), (0, 300000)], holes = []\<rparr>"

definition tiny_island :: expolygon where
  "tiny_island = \<lparr>contour = [(0, 0), (300000, 0), (300000, 300000), (0, 300000)], holes = []\<rparr>"

definition wide_island :: expolygon where
  "wide_island = \<lparr>contour = [(0, 0), (600000, 0), (600000, 100000), (0, 100000)], holes = []\<rparr>"

text \<open>
  The skeleton of the rectangle of 0.6 mm by 0.1 mm: the four bisectors of the corners
  (nodes 0, 3, 4, 5) meet the axis in the nodes 1 and 2. The bisectors are
  \<open>50000 * sqrt 2\<close> long, given to three decimals; the width grows from 0 at a corner
  to 100000 on the axis. The longest path runs from corner 0 over the axis to corner 3.
\<close>

definition edge :: "nat \<Rightarrow> rat \<Rightarrow> coord_t \<Rightarrow> coord_t \<Rightarrow> nat \<Rightarrow> nat \<Rightarrow> nat \<Rightarrow> neighbor" where
  "edge to_node len w_min w_max tw src tw_src =
     \<lparr>node = to_node, length_n = len, min_width = w_min, max_width = w_max, twin = tw,
      source_index = src, twin_source_index = tw_src\<rparr>"

definition wide_skeleton :: voronoi_graph where
  "wide_skeleton =
     \<lparr>neighbors =
        [edge 1 (70710678 / 1000) 0 100000 1 0 3, edge 0 (70710678 / 1000) 0 100000 0 3 0,
         edge 2 500000 100000 100000 3 0 2, edge 1 500000 100000 100000 2 2 0,
         edge 3 (70710678 / 1000) 0 100000 5 0 1, edge 2 (70710678 / 1000) 0 100000 4 1 0,
         edge 4 (70710678 / 1000) 0 100000 7 1 2, edge 2 (70710678 / 1000) 0 100000 6 2 1,
         edge 5 (70710678 / 1000) 0 100000 9 2 3, edge 1 (70710678 / 1000) 0 100000 8 3 2],
      node_neighbors = [[0], [1, 2, 8], [3, 4, 6], [5], [7], [9]]\<rparr>"

definition wide_nodes :: points where
  "wide_nodes = [(0, 0), (50000, 50000), (550000, 50000), (600000, 0), (600000, 100000),
                 (0, 100000)]"

definition wide_path :: ex_path where
  "wide_path = \<lparr>nodes = [0, 1, 2, 3], length_p = 641421356 / 1000\<rparr>"

text \<open>
  The collaborators on these inputs. Simplification keeps a polygon whose corners all
  stand out; the offset of a rectangle is the smaller rectangle, or nothing; lines are
  parallel to the axes, so lengths and distances are exact; the position of a width on
  a bisector is proportional to the width; a position is near an end of the skeleton
  when the node at either end of its edge is a leaf closer than the distance. The
  segmentation and the interior grid are not reached by the properties below. The
  numbers that are narrowed to \<^verbatim>\<open>float\<close> on these inputs are values of that format, so the
  conversion leaves them as they are.
\<close>

definition edge_point :: "points \<Rightarrow> voronoi_graph \<Rightarrow> position \<Rightarrow> point" where
  "edge_point node_points g pos =
     (let a = node_points ! node (neighbors g ! get_twin g (neighbor pos));
          b = node_points ! node (neighbors g ! neighbor pos)
      in (fst a + to_coord (ratio pos * of_int (fst b - fst a)),
          snd a + to_coord (ratio pos * of_int (snd b - snd a))))"

definition box_offset :: "expolygon \<Rightarrow> rat \<Rightarrow> polygon list" where
  "box_offset e delta =
     (let ((a, b), (c, d)) = rect_of (contour e); k = to_coord (- delta)
      in if c - a \<le> 2 * k \<or> d - b \<le> 2 * k then []
         else [[(a + k, b + k), (c - k, b + k), (c - k, d - k), (a + k, d - k)]])"

definition wide_geometry :: geometry where
  "wide_geometry =
     \<lparr>simplify = (\<lambda>e t. [e]),
      offset = box_offset,
      angle_in_tolerance = (\<lambda>l1 l2.
         sgn (fst (snd l1) - fst (fst l1)) = sgn (fst (snd l2) - fst (fst l2))
         \<and> sgn (snd (snd l1) - snd (fst l1)) = sgn (snd (snd l2) - snd (fst l2))),
      distance_in_tolerance = (\<lambda>l1 l2 delta.
         \<bar>of_int (if snd (fst l1) = snd (snd l1) then \<bar>snd (fst l2) - snd (fst l1)\<bar>
                    else \<bar>fst (fst l2) - fst (fst l1)\<bar>) - delta\<bar> \<le> 20),
      line_length = (\<lambda>l. of_int (\<bar>fst (snd l) - fst (fst l)\<bar> + \<bar>snd (snd l) - snd (fst l)\<bar>)),
      create_longest_path = (\<lambda>lns. (wide_skeleton, wide_path)),
      get_max_width = (\<lambda>g path. 100000),
      get_position_with_width = (\<lambda>g n w lns.
         \<lparr>neighbor = n,
          ratio = (if n \<in> {0, 5, 7, 9} then of_int w / 100000
                   else if n \<in> {1, 4, 6, 8} then 1 - of_int w / 100000 else 0)\<rparr>),
      ends_in_distanace = (\<lambda>g pos d.
         (length (node_neighbors g ! node (neighbors g ! neighbor pos)) = 1
            \<and> to_coord ((1 - ratio pos) * length_n (neighbors g ! neighbor pos)) < d)
         \<or> (length (node_neighbors g ! node (neighbors g ! get_twin g (neighbor pos))) = 1
            \<and> calc_distance g pos < d)),
      create_edge_point = edge_point wide_nodes,
      separate_thin_thick = (\<lambda>g path lns config. ([], [])),
      create_thick_field = (\<lambda>g part lns config.
         \<lparr>border = empty_expolygon, is_outline = [], inner = empty_expolygon,
          field_2_inner = Map.empty\<rparr>),
      sample_expolygon_with_centering = (\<lambda>e d. []),
      to_float = (\<lambda>r. r)\<rparr>"

definition wide_config :: sample_config where
  "wide_config =
     \<lparr>head_radius = 400000, simplification_tolerance = 0, thin_max_distance = 5000000,
      thick_inner_max_distance = 5000000, thick_outline_max_distance = 5000000,
      minimal_distance_from_outline = 50000, maximal_distance_from_outline = 200000,
      max_align_distance = 100000, min_part_length = 100000, thin_max_width = 200000,
      thick_min_width = 150000, count_iteration = 30, minimal_move = 1000,
      max_length_for_one_support_point = 1000000,
      max_length_for_two_support_points = 2000000,
      max_length_ratio_for_two_support_points = 1 / 4\<rparr>"

definition small_peninsula :: peninsula where
  "small_peninsula =
     \<lparr>unsuported_area = \<lparr>contour = [(0, 0), (60000, 0), (60000, 60000), (0, 60000)], holes = []\<rparr>,
      is_outline_p = [True, True, True, False]\<rparr>"

subsection \<open>Island parts\<close>




subsection \<open>A tapering island\<close>

text \<open>
  A skeleton that is a chain of seven nodes with the widths 0, 250000, 190000, 170000,
  160000, 120000 and 0; the edge from node \<open>k\<close> to node \<open>k + 1\<close> is neighbor \<open>2 * k\<close>,
  its twin \<open>2 * k + 1\<close>. The width changes linearly along an edge, which gives the
  position of a width on it (the first or the last point of the edge when the width
  is not reached). The walk of the segmentation starts in node 0 with one thin part.
\<close>

definition taper_skeleton :: voronoi_graph where
  "taper_skeleton =
     \<lparr>neighbors =
        [edge 1 500000 0 250000 1 0 1, edge 0 500000 0 250000 0 1 0,
         edge 2 300000 190000 250000 3 0 1, edge 1 300000 190000 250000 2 1 0,
         edge 3 200000 170000 190000 5 0 1, edge 2 200000 170000 190000 4 1 0,
         edge 4 200000 160000 170000 7 0 1, edge 3 200000 160000 170000 6 1 0,
         edge 5 200000 120000 160000 9 0 1, edge 4 200000 120000 160000 8 1 0,
         edge 6 400000 0 120000 11 0 1, edge 5 400000 0 120000 10 1 0],
      node_neighbors = [[0], [1, 2], [3, 4], [5, 6], [7, 8], [9, 10], [11]]\<rparr>"

definition taper_widths :: "coord_t list" where
  "taper_widths = [0, 250000, 190000, 170000, 160000, 120000, 0]"

definition width_position :: "coord_t list \<Rightarrow> voronoi_graph \<Rightarrow> nat \<Rightarrow> coord_t \<Rightarrow> line list \<Rightarrow> position" where
  "width_position widths g n w lns =
     (let a = widths ! node (neighbors g ! get_twin g n);
          b = widths ! node (neighbors g ! n)
      in \<lparr>neighbor = n,
          ratio = (if a = b then 0 else max 0 (min 1 (of_int (w - a) / of_int (b - a))))\<rparr>)"

definition taper_geometry :: geometry where
  "taper_geometry = wide_geometry\<lparr>get_position_with_width := width_position taper_widths\<rparr>"

definition start_parts :: island_parts where
  "start_parts = [\<lparr>type_p = thin, changes = [], sum_lengths = 0\<rparr>]"

definition walk_a :: "island_parts \<times> nat" where
  "walk_a = detect_interface taper_geometry taper_skeleton start_parts 0 0 [] wide_config"
definition walk_b :: "island_parts \<times> nat" where
  "walk_b = detect_interface taper_geometry taper_skeleton (fst walk_a) (snd walk_a) 2 [] wide_config"
definition walk_c :: "island_parts \<times> nat" where
  "walk_c = detect_interface taper_geometry taper_skeleton (fst walk_b) (snd walk_b) 4 [] wide_config"
definition walk_d :: "island_parts \<times> nat" where
  "walk_d = detect_interface taper_geometry taper_skeleton (fst walk_c) (snd walk_c) 6 [] wide_config"
definition walk_e :: "island_parts \<times> nat" where
  "walk_e = detect_interface taper_geometry taper_skeleton (fst walk_d) (snd walk_d) 8 [] wide_config"

subsection \<open>A thick square\<close>

text \<open>
  A field that is a square of 1.1 mm with its inner area 0.05 mm inside, line \<open>i\<close> of the
  border above line \<open>i\<close> of the inner contour. In \<open>ring_field\<close> the whole border is outline,
  in \<open>coast_field\<close> its last line is not. The outline is sampled every 6 mm.
\<close>

definition six_config :: sample_config where
  "six_config = wide_config\<lparr>thick_outline_max_distance := 6000000\<rparr>"

definition ring_field :: field where
  "ring_field =
     \<lparr>border = \<lparr>contour = [(0, 0), (1100000, 0), (1100000, 1100000), (0, 1100000)], holes = []\<rparr>,
      is_outline = [True, True, True, True],
      inner = \<lparr>contour = [(50000, 50000), (1050000, 50000), (1050000, 1050000), (50000, 1050000)],
               holes = []\<rparr>,
      field_2_inner = (\<lambda>i. if i < 4 then Some i else None)\<rparr>"

definition coast_field :: field where
  "coast_field = ring_field\<lparr>is_outline := [True, True, True, False]\<rparr>"

text \<open>
  The rectangle of 0.6 mm by 0.1 mm with a longest path too long for one point: with a head of
  radius 0.03 mm the width 0.06 mm is reached on the first bisector; with a head of radius
  0.4 mm it is reached nowhere.
\<close>

definition two_config :: sample_config where
  "two_config = wide_config\<lparr>head_radius := 30000, max_length_for_one_support_point := 500000\<rparr>"

definition far_config :: sample_config where
  "far_config = wide_config\<lparr>max_length_for_one_support_point := 500000\<rparr>"

section \<open>Properties\<close>

subsection \<open>Alignment\<close>

lemma align_supports_strip:
  "align_supports strip_geometry strip_island
     (create_voronoi_cells_cgal strip_geometry (to_points strip_samples) 100) strip_samples 0
   = Some (strip_samples, 0)"
  by (simp add: strip_geometry_def strip_samples_def strip_island_def align_support_def
        can_move_def move_def rect_of_def Let_def to_points_def)

lemma move_duplicit_positions_strip:
  "move_duplicit_positions E strip_samples ps = Some strip_samples"
  by (simp add: move_duplicit_positions_def strip_samples_def to_points_def sort_by_def
        cmp_index_def upt_rec move_duplicit_loop.simps get_duplicit_index_def Let_def)

lemma align_once_strip:
  "align_once strip_geometry strip_samples strip_island strip_config = Some (strip_samples, 0)"
  using align_supports_strip
  by (simp add: align_once_def strip_config_def move_duplicit_positions_strip Let_def)

text \<open>
  When a sweep leaves the samples where they are and reports a move that is not below
  \<open>minimal_move\<close>, the loop runs until the counter stops it: \<open>unat (count - 1) - 1\<close>
  sweeps, which is \<open>count - 2\<close> from 2 on, none for 1, and \<open>2 ^ 64 - 2\<close> for 0.
\<close>

lemma align_loop_stationary:
  assumes "once samples = Some (samples, m)" and "\<not> m < min_move"
  shows "align_loop once min_move count samples sweeps
           = Some (samples, sweeps + (unat (count - 1) - 1))"
  using assms
proof (induction once min_move count samples sweeps rule: align_loop.induct)
  case (1 once min_move count samples sweeps)
  show ?case
  proof (cases "count - 1 > 1")
    case True
    then have nz: "count - 1 \<noteq> 0" by auto
    have u: "unat (count - 1 - 1) = unat (count - 1) - 1"
      using nz by (rule unat_minus_one)
    have g: "1 < unat (count - 1)"
      using True by (simp add: word_less_nat_alt)
    have "align_loop once min_move count samples sweeps
            = align_loop once min_move (count - 1) samples (sweeps + 1)"
      using True 1(2,3) by (subst align_loop.simps) simp
    also have "\<dots> = Some (samples, sweeps + 1 + (unat (count - 1 - 1) - 1))"
      using 1(1)[OF True 1(2) _ _ 1(2) 1(3)] 1(3) by simp
    also have "sweeps + 1 + (unat (count - 1 - 1) - 1) = sweeps + (unat (count - 1) - 1)"
      using u g by simp
    finally show ?thesis .
  next
    case False
    then have "unat (count - 1) \<le> 1"
      by (simp add: word_less_nat_alt)
    then show ?thesis using False by (subst align_loop.simps) simp
  qed
qed

text \<open>
  C3. The claim: \<^verbatim>\<open>align_samples\<close> performs at most \<open>count_iteration\<close> sweeps, for
  every value of \<open>count_iteration\<close>, 0 included. The code decrements the unsigned
  counter before it compares: with \<open>count_iteration = 0\<close> the counter wraps to
  \<open>2 ^ 64 - 1\<close>, and on the strip, where no sweep moves a point and
  \<open>minimal_move = 0\<close>, the loop makes \<open>2 ^ 64 - 2\<close> sweeps before it returns.
\<close>

theorem align_samples_zero_count_iteration:
  "align_samples strip_geometry strip_samples strip_island strip_config
     = Some (strip_samples, 18446744073709551614)"
proof -
  have "align_loop (\<lambda>s. align_once strip_geometry s strip_island strip_config) 0 0 strip_samples 0
          = Some (strip_samples, 0 + (unat ((0::size_t) - 1) - 1))"
    by (rule align_loop_stationary
          [where once = "\<lambda>s. align_once strip_geometry s strip_island strip_config" and m = 0])
       (simp_all add: align_once_strip)
  moreover have "unat ((0::size_t) - 1) - 1 = 18446744073709551614"
    by (simp add: unsigned_minus_1_eq_mask mask_eq_exp_minus_1)
  moreover have "list_ex can_move strip_samples"
    by (simp add: strip_samples_def can_move_def)
  moreover have "length strip_samples \<noteq> 1"
    by (simp add: strip_samples_def)
  ultimately show ?thesis
    by (simp add: align_samples_def strip_config_def)
qed





subsection \<open>The smallest islands\<close>

lemma update_axis_in_box:
  "lo \<le> hi \<Longrightarrow> L \<le> lo \<Longrightarrow> hi \<le> H \<Longrightarrow> L \<le> v \<Longrightarrow> v \<le> H \<Longrightarrow> H - L \<le> r
     \<Longrightarrow> update_axis lo hi v r = Some (min lo v, max hi v)"
  by (auto simp: update_axis_def)

lemma Min_insert_min:
  "finite S \<Longrightarrow> Min (insert (min a v) S) = Min (insert a (insert (v::int) S))"
  by (cases "S = {}") (auto simp: min_def)

lemma Max_insert_max:
  "finite S \<Longrightarrow> Max (insert (max a v) S) = Max (insert a (insert (v::int) S))"
  by (cases "S = {}") (auto simp: max_def)

text \<open>
  Inside a box that is at most \<open>r\<close> wide and high the scan never gives up, and it ends
  with the smallest and the largest coordinates.
\<close>

lemma get_center_loop_box:
  assumes "H1 - L1 \<le> r" and "H2 - L2 \<le> r"
    and "\<forall>p\<in>set ps. L1 \<le> fst p \<and> fst p \<le> H1 \<and> L2 \<le> snd p \<and> snd p \<le> H2"
    and "L1 \<le> fst mn" "fst mn \<le> fst mx" "fst mx \<le> H1"
    and "L2 \<le> snd mn" "snd mn \<le> snd mx" "snd mx \<le> H2"
  shows "get_center_loop mn mx r ps =
           Some ((Min (insert (fst mn) (fst ` set ps)), Min (insert (snd mn) (snd ` set ps))),
                 (Max (insert (fst mx) (fst ` set ps)), Max (insert (snd mx) (snd ` set ps))))"
  using assms
proof (induction ps arbitrary: mn mx)
  case Nil
  then show ?case by simp
next
  case (Cons p ps)
  have ux: "update_axis (fst mn) (fst mx) (fst p) r
              = Some (min (fst mn) (fst p), max (fst mx) (fst p))"
    using Cons.prems by (intro update_axis_in_box[where L = L1 and H = H1]) auto
  have uy: "update_axis (snd mn) (snd mx) (snd p) r
              = Some (min (snd mn) (snd p), max (snd mx) (snd p))"
    using Cons.prems by (intro update_axis_in_box[where L = L2 and H = H2]) auto
  have "get_center_loop mn mx r (p # ps) =
          get_center_loop (min (fst mn) (fst p), min (snd mn) (snd p))
                          (max (fst mx) (fst p), max (snd mx) (snd p)) r ps"
    by (simp add: ux uy)
  also have "\<dots> = Some ((Min (insert (min (fst mn) (fst p)) (fst ` set ps)),
                         Min (insert (min (snd mn) (snd p)) (snd ` set ps))),
                        (Max (insert (max (fst mx) (fst p)) (fst ` set ps)),
                         Max (insert (max (snd mx) (snd p)) (snd ` set ps))))"
    using Cons.prems by (subst Cons.IH) (auto simp: min_def max_def)
  finally show ?case
    by (simp add: Min_insert_min Max_insert_max)
qed

lemma get_center_box:
  assumes "2 < length ps"
    and "fst (snd (bounding_box ps)) - fst (fst (bounding_box ps)) \<le> r"
    and "snd (snd (bounding_box ps)) - snd (fst (bounding_box ps)) \<le> r"
  shows "get_center ps r =
           Some (point_add (point_div (fst (bounding_box ps)) 2)
                           (point_div (snd (bounding_box ps)) 2))"
proof -
  obtain q qs where ps: "ps = q # qs"
    using assms(1) by (cases ps) auto
  let ?L1 = "Min (fst ` set ps)" and ?H1 = "Max (fst ` set ps)"
  let ?L2 = "Min (snd ` set ps)" and ?H2 = "Max (snd ` set ps)"
  have b: "\<forall>p\<in>set ps. ?L1 \<le> fst p \<and> fst p \<le> ?H1 \<and> ?L2 \<le> snd p \<and> snd p \<le> ?H2"
    by simp
  have "get_center_loop q q r qs =
          Some ((Min (insert (fst q) (fst ` set qs)), Min (insert (snd q) (snd ` set qs))),
                (Max (insert (fst q) (fst ` set qs)), Max (insert (snd q) (snd ` set qs))))"
    using assms(2,3) b
    by (intro get_center_loop_box
          [where ?L1.0 = ?L1 and ?H1.0 = ?H1 and ?L2.0 = ?L2 and ?H2.0 = ?H2])
       (auto simp: bounding_box_def ps)
  then show ?thesis
    using assms(1) by (simp add: get_center_def ps bounding_box_def)
qed

text \<open>
  C1. The claim: every returned support point lies in the island, on every branch,
  and the tests check it (\<^verbatim>\<open>CHECK(island.contains(point->point))\<close>). On the first
  branch the code returns the centre of the bounding box without looking at the
  island. For the L-shaped island, which fits the head and which simplification leaves
  as it is, that centre is (150000, 150000), in the notch of the L: outside the island,
  whatever the other collaborators and options are.
\<close>

theorem one_bb_center_outside_island:
  "uniform_support_island (G\<lparr>simplify := \<lambda>e t. [e]\<rparr>) E l_island (config\<lparr>head_radius := 400000\<rparr>)
     = Some [\<lparr>point = (150000, 150000), type = one_bb_center_point, movement = NoMove\<rparr>]
   \<and> \<not> expolygon_contains l_island (150000, 150000)"
  by (simp add: uniform_support_island_def get_simplified_def get_center_def l_island_def
        update_axis_def point_add_def point_div_def cdiv_def expolygon_contains_def
        inside_polygon_def on_polygon_def polygon_lines_def ray_crosses_def on_line_def Let_def)

text \<open>
  C2, as stated: an island whose bounding box fits within a disk of the head's radius
  gets one point of type \<open>one_bb_center\<close>. The code compares the width and the height
  of the box with the radius, not the diagonal with the diameter: the rectangle of
  0.6 mm by 0.1 mm fits within the disk of radius 0.4 mm, and the code goes on to the
  skeleton and returns a point of type \<open>one_center\<close>.
\<close>

theorem bb_in_disk_not_one_bb_center:
  "fits_in_disk (contour (get_simplified wide_geometry wide_island wide_config))
       (head_radius wide_config)
   \<and> uniform_support_island wide_geometry strip_geometry wide_island wide_config
       = Some [\<lparr>point = (300000, 50000), type = one_center_point, movement = NoMove\<rparr>]"
proof -
  have gc: "get_center (contour wide_island) 400000 = None"
    by (simp add: get_center_def wide_island_def update_axis_def)
  have "fits_in_disk (contour wide_island) 400000"
    by (simp add: fits_in_disk_def bounding_box_def wide_island_def)
  moreover have "get_simplified wide_geometry wide_island wide_config = wide_island"
    by (simp add: get_simplified_def wide_geometry_def)
  moreover have "uniform_support_island wide_geometry strip_geometry wide_island wide_config
       = Some [\<lparr>point = (300000, 50000), type = one_center_point, movement = NoMove\<rparr>]"
    using gc
    by (simp add: uniform_support_island_def get_simplified_def wide_geometry_def wide_config_def
          create_middle_path_point_def wide_path_def get_neighbor_def wide_skeleton_def edge_def
          create_no_move_point_def edge_point_def wide_nodes_def get_twin_def to_coord_def Let_def)
  ultimately show ?thesis
    by (simp add: wide_config_def)
qed

text \<open>
  C2, amended: when the simplified contour has at least three points and its bounding
  box is at most \<open>head_radius\<close> wide and at most \<open>head_radius\<close> high, the result is
  exactly one fixed point of type \<open>one_bb_center\<close> at \<open>min / 2 + max / 2\<close> of the box
  (each coordinate halved with truncation); nothing else is computed.
\<close>

theorem uniform_support_island_bb_center:
  assumes "ps = contour (get_simplified G island config)"
    and "2 < length ps"
    and "fst (snd (bounding_box ps)) - fst (fst (bounding_box ps)) \<le> head_radius config"
    and "snd (snd (bounding_box ps)) - snd (fst (bounding_box ps)) \<le> head_radius config"
  shows "uniform_support_island G E island config =
           Some [\<lparr>point = point_add (point_div (fst (bounding_box ps)) 2)
                                    (point_div (snd (bounding_box ps)) 2),
                  type = one_bb_center_point, movement = NoMove\<rparr>]"
  using get_center_box[OF assms(2,3,4)] assms(1)
  by (simp add: uniform_support_island_def Let_def)

lemma bounding_box_tiny: "bounding_box (contour tiny_island) = ((0, 0), (300000, 300000))"
  by (simp add: bounding_box_def tiny_island_def)

theorem uniform_support_island_bb_center_witness:
  "uniform_support_island wide_geometry strip_geometry tiny_island wide_config =
     Some [\<lparr>point = (150000, 150000), type = one_bb_center_point, movement = NoMove\<rparr>]"
proof -
  have s: "contour tiny_island = contour (get_simplified wide_geometry tiny_island wide_config)"
    by (simp add: get_simplified_def wide_geometry_def)
  have l: "2 < length (contour tiny_island)"
    by (simp add: tiny_island_def)
  have w: "fst (snd (bounding_box (contour tiny_island)))
             - fst (fst (bounding_box (contour tiny_island))) \<le> head_radius wide_config"
    by (simp add: bounding_box_tiny wide_config_def)
  have h: "snd (snd (bounding_box (contour tiny_island)))
             - snd (fst (bounding_box (contour tiny_island))) \<le> head_radius wide_config"
    by (simp add: bounding_box_tiny wide_config_def)
  from uniform_support_island_bb_center[OF s l w h, of strip_geometry] show ?thesis
    by (simp add: bounding_box_tiny point_add_def point_div_def cdiv_def)
qed

subsection \<open>Peninsulas\<close>

text \<open>
  C10, as stated: when the offset of the unsupported area gives no polygon, the empty list is
  returned and no error is raised. With assertions compiled in, \<^verbatim>\<open>assert(!field.inner.empty())\<close>
  fails on exactly these inputs, before the test that would return the empty list: on the
  square of 60000 with the distance 50000 the program aborts.
\<close>

theorem uniform_support_peninsula_assert_fails:
  "offset wide_geometry (unsuported_area small_peninsula)
       (- to_float wide_geometry (of_int (minimal_distance_from_outline wide_config))) = []
   \<and> uniform_support_peninsula wide_geometry strip_geometry False small_peninsula wide_config
       = None"
  by (simp add: uniform_support_peninsula_def outline_offset_def is_empty_def empty_expolygon_def
        wide_geometry_def box_offset_def small_peninsula_def wide_config_def rect_of_def
        to_coord_def)

text \<open>
  C10, amended: when the offset of the unsupported area by \<open>minimal_distance_from_outline\<close>
  (narrowed to \<^verbatim>\<open>float\<close>) gives no polygon, a build without assertions returns the empty list:
  it returns normally, and neither the outline sampler, the interior grid nor the alignment has
  a part in the result, whatever they are. A build with assertions aborts.
\<close>

theorem uniform_support_peninsula_no_inner:
  assumes "offset G (unsuported_area pen)
             (- to_float G (of_int (minimal_distance_from_outline config))) = []"
  shows "uniform_support_peninsula G E ndebug pen config = (if ndebug then Some [] else None)"
  using assms
  by (simp add: uniform_support_peninsula_def outline_offset_def is_empty_def empty_expolygon_def)

theorem uniform_support_peninsula_no_inner_witness:
  "offset wide_geometry (unsuported_area small_peninsula)
       (- to_float wide_geometry (of_int (minimal_distance_from_outline wide_config))) = []
   \<and> uniform_support_peninsula wide_geometry strip_geometry True small_peninsula wide_config
       = Some []"
proof -
  have h: "offset wide_geometry (unsuported_area small_peninsula)
       (- to_float wide_geometry (of_int (minimal_distance_from_outline wide_config))) = []"
    by (simp add: wide_geometry_def box_offset_def small_peninsula_def wide_config_def rect_of_def
          to_coord_def)
  show ?thesis
    using h uniform_support_peninsula_no_inner[OF h, of strip_geometry True] by simp
qed

subsection \<open>Merging the middle parts\<close>






subsection \<open>Interfaces between the parts\<close>

lemma add_part_suppressed:
  "suppressed G g n lns config limit \<Longrightarrow>
     add_part G g parts index to_type n limit lns config = (parts, index)"
  by (simp add: add_part_def suppressed_def Let_def)

lemma add_part_type:
  assumes "\<not> suppressed G g n lns config limit" and "index < length parts"
  shows "type_p (fst (add_part G g parts index to_type n limit lns config)
                  ! snd (add_part G g parts index to_type n limit lns config)) = to_type"
    and "snd (add_part G g parts index to_type n limit lns config)
           < length (fst (add_part G g parts index to_type n limit lns config))"
  using assms
  by (auto simp: add_part_def suppressed_def Let_def nth_append)

lemma detect_interface_foldl:
  "transitions config (type_p (parts ! index)) (neighbors g ! n) \<noteq> [] \<Longrightarrow>
   detect_interface G g parts index n lns config =
     foldl (\<lambda>(ps, i) (ty, limit). add_part G g ps i ty n limit lns config) (parts, index)
       (transitions config (type_p (parts ! index)) (neighbors g ! n))"
  by (cases "type_p (parts ! index)")
     (auto simp: detect_interface_def transitions_def Let_def split: prod.splits if_splits)

lemma detect_interface_stays:
  "transitions config (type_p (parts ! index)) (neighbors g ! n) = [] \<Longrightarrow>
   detect_interface G g parts index n lns config = no_interface g parts index n"
  by (cases "type_p (parts ! index)")
     (auto simp: detect_interface_def transitions_def Let_def split: prod.splits if_splits)

lemma foldl_add_part_suppressed:
  "list_all (\<lambda>(ty, limit). suppressed G g n lns config limit) ts \<Longrightarrow>
   foldl (\<lambda>(ps, i) (ty, limit). add_part G g ps i ty n limit lns config) (parts, index) ts
     = (parts, index)"
  by (induction ts) (auto simp: add_part_suppressed)

lemma foldl_add_part_type:
  "ts \<noteq> [] \<Longrightarrow> list_all (\<lambda>(ty, limit). \<not> suppressed G g n lns config limit) ts \<Longrightarrow>
   index < length parts \<Longrightarrow>
   type_p (fst (foldl (\<lambda>(ps, i) (ty, limit). add_part G g ps i ty n limit lns config)
                  (parts, index) ts)
           ! snd (foldl (\<lambda>(ps, i) (ty, limit). add_part G g ps i ty n limit lns config)
                  (parts, index) ts)) = fst (last ts)
   \<and> snd (foldl (\<lambda>(ps, i) (ty, limit). add_part G g ps i ty n limit lns config)
                  (parts, index) ts)
       < length (fst (foldl (\<lambda>(ps, i) (ty, limit). add_part G g ps i ty n limit lns config)
                  (parts, index) ts))"
proof (induction ts arbitrary: parts index rule: rev_induct)
  case Nil
  then show ?case by simp
next
  case (snoc t ts)
  obtain ty limit where t: "t = (ty, limit)" by (cases t)
  let ?f = "\<lambda>(ps, i) (ty, limit). add_part G g ps i ty n limit lns config"
  obtain ps i where r: "foldl ?f (parts, index) ts = (ps, i)"
    by (cases "foldl ?f (parts, index) ts")
  have ns: "\<not> suppressed G g n lns config limit"
    using snoc.prems(2) t by simp
  have i: "i < length ps"
  proof (cases "ts = []")
    case True
    then show ?thesis using r snoc.prems(3) by simp
  next
    case False
    then show ?thesis
      using snoc.IH[OF False _ snoc.prems(3)] snoc.prems(2) r by simp
  qed
  show ?case
    using add_part_type[OF ns i, of ty]
    by (simp add: r t)
qed

lemmas taper_simps = taper_geometry_def wide_geometry_def taper_skeleton_def edge_def
  taper_widths_def width_position_def wide_config_def detect_interface_def add_part_def
  no_interface_def get_twin_def calc_distance_def to_coord_def Let_def start_parts_def

lemma walk_a_eq: "walk_a =
  ([\<lparr>type_p = thin, changes = [\<lparr>position_c = \<lparr>neighbor = 0, ratio = 3 / 5\<rparr>, part_index = 1\<rparr>],
      sum_lengths = 300000\<rparr>,
    \<lparr>type_p = middle,
      changes = [\<lparr>position_c = \<lparr>neighbor = 1, ratio = 2 / 5\<rparr>, part_index = 0\<rparr>,
                 \<lparr>position_c = \<lparr>neighbor = 0, ratio = 4 / 5\<rparr>, part_index = 2\<rparr>],
      sum_lengths = 600000\<rparr>,
    \<lparr>type_p = thick, changes = [\<lparr>position_c = \<lparr>neighbor = 1, ratio = 1 / 5\<rparr>, part_index = 1\<rparr>],
      sum_lengths = 100000\<rparr>], 2)"
  by (simp add: walk_a_def taper_simps)

lemma walk_b_eq: "walk_b =
  ([\<lparr>type_p = thin, changes = [\<lparr>position_c = \<lparr>neighbor = 0, ratio = 3 / 5\<rparr>, part_index = 1\<rparr>],
      sum_lengths = 300000\<rparr>,
    \<lparr>type_p = middle,
      changes = [\<lparr>position_c = \<lparr>neighbor = 1, ratio = 2 / 5\<rparr>, part_index = 0\<rparr>,
                 \<lparr>position_c = \<lparr>neighbor = 0, ratio = 4 / 5\<rparr>, part_index = 2\<rparr>],
      sum_lengths = 600000\<rparr>,
    \<lparr>type_p = thick, changes = [\<lparr>position_c = \<lparr>neighbor = 1, ratio = 1 / 5\<rparr>, part_index = 1\<rparr>],
      sum_lengths = 400000\<rparr>], 2)"
  by (simp add: walk_b_def walk_a_eq taper_simps)

lemma walk_c_eq: "walk_c =
  ([\<lparr>type_p = thin, changes = [\<lparr>position_c = \<lparr>neighbor = 0, ratio = 3 / 5\<rparr>, part_index = 1\<rparr>],
      sum_lengths = 300000\<rparr>,
    \<lparr>type_p = middle,
      changes = [\<lparr>position_c = \<lparr>neighbor = 1, ratio = 2 / 5\<rparr>, part_index = 0\<rparr>,
                 \<lparr>position_c = \<lparr>neighbor = 0, ratio = 4 / 5\<rparr>, part_index = 2\<rparr>],
      sum_lengths = 600000\<rparr>,
    \<lparr>type_p = thick,
      changes = [\<lparr>position_c = \<lparr>neighbor = 1, ratio = 1 / 5\<rparr>, part_index = 1\<rparr>,
                 \<lparr>position_c = \<lparr>neighbor = 4, ratio = 0\<rparr>, part_index = 3\<rparr>],
      sum_lengths = 400000\<rparr>,
    \<lparr>type_p = middle, changes = [\<lparr>position_c = \<lparr>neighbor = 5, ratio = 1\<rparr>, part_index = 2\<rparr>],
      sum_lengths = 200000\<rparr>], 3)"
  by (simp add: walk_c_def walk_b_eq taper_simps)

lemma walk_d_facts:
  "snd walk_d = 3" "length (fst walk_d) = 4" "type_p (fst walk_d ! 3) = middle"
  "walk_d = no_interface taper_skeleton (fst walk_c) (snd walk_c) 6"
  by (simp_all add: walk_d_def walk_c_eq taper_simps)

lemma walk_e_eq:
  "walk_e = add_part taper_geometry taper_skeleton (fst walk_d) 3 thin 8 150000 [] wide_config"
  "snd walk_e = 4" "type_p (fst walk_e ! 4) = thin"
  by (simp_all add: walk_e_def walk_d_def walk_c_eq taper_simps)

text \<open>
  C6, as stated: an edge is thin while its \<open>max_width\<close> is below \<open>thick_min_width\<close>, thick
  while it is above \<open>thin_max_width\<close>, and middle in between. A middle part is left for a thin
  one as soon as the \<open>min_width\<close> of the edge is below \<open>thick_min_width\<close>, whatever its
  \<open>max_width\<close>: on the tapering skeleton the walk is in a middle part when it comes to the edge
  of widths 120000 to 160000, whose \<open>max_width\<close> lies between the thresholds 150000 and
  200000, and it goes on in a new thin part.
\<close>

theorem middle_turns_thin_between_thresholds:
  "type_p (fst walk_d ! snd walk_d) = middle
   \<and> thick_min_width wide_config \<le> max_width (neighbors taper_skeleton ! 8)
   \<and> max_width (neighbors taper_skeleton ! 8) \<le> thin_max_width wide_config
   \<and> type_p (fst walk_e ! snd walk_e) = thin
   \<and> length (fst walk_e) = length (fst walk_d) + 1"
  by (simp add: walk_e_eq(2,3) walk_d_facts(1,2,3))
     (simp add: walk_e_def walk_d_def walk_c_eq taper_simps)

text \<open>
  C6, amended: the transitions that an edge causes are those of \<open>transitions\<close>, in a thin part
  by the \<open>max_width\<close> of the edge alone, in a middle part by its \<open>min_width\<close> first and its
  \<open>max_width\<close> next, in a thick part by its \<open>max_width\<close> first and its \<open>min_width\<close> next.
  Without a transition the part goes on and only the length of the edge is added to it. With
  transitions, \<^verbatim>\<open>detect_interface\<close> is \<^verbatim>\<open>add_part\<close> for each of them in turn; when none of
  them is suppressed the walk goes on in a part of the type of the last one, and when each
  lies within \<open>min_part_length\<close> of an end of the skeleton no part is created and the parts
  and the index are returned as they were.
\<close>

theorem detect_interface_transitions:
  assumes "index < length parts"
  shows "(transitions config (type_p (parts ! index)) (neighbors g ! n) = []
           \<longrightarrow> detect_interface G g parts index n lns config = no_interface g parts index n)
       \<and> (transitions config (type_p (parts ! index)) (neighbors g ! n) \<noteq> []
           \<longrightarrow> detect_interface G g parts index n lns config =
                 foldl (\<lambda>(ps, i) (ty, limit). add_part G g ps i ty n limit lns config)
                   (parts, index) (transitions config (type_p (parts ! index)) (neighbors g ! n)))
       \<and> (transitions config (type_p (parts ! index)) (neighbors g ! n) \<noteq> []
            \<and> list_all (\<lambda>(ty, limit). \<not> suppressed G g n lns config limit)
                 (transitions config (type_p (parts ! index)) (neighbors g ! n))
           \<longrightarrow> type_p (fst (detect_interface G g parts index n lns config)
                         ! snd (detect_interface G g parts index n lns config))
                   = fst (last (transitions config (type_p (parts ! index)) (neighbors g ! n)))
               \<and> snd (detect_interface G g parts index n lns config)
                   < length (fst (detect_interface G g parts index n lns config)))
       \<and> (transitions config (type_p (parts ! index)) (neighbors g ! n) \<noteq> []
            \<and> list_all (\<lambda>(ty, limit). suppressed G g n lns config limit)
                 (transitions config (type_p (parts ! index)) (neighbors g ! n))
           \<longrightarrow> detect_interface G g parts index n lns config = (parts, index))"
proof (intro conjI impI)
  assume "transitions config (type_p (parts ! index)) (neighbors g ! n) = []"
  then show "detect_interface G g parts index n lns config = no_interface g parts index n"
    by (rule detect_interface_stays)
next
  assume "transitions config (type_p (parts ! index)) (neighbors g ! n) \<noteq> []"
  then show "detect_interface G g parts index n lns config =
                 foldl (\<lambda>(ps, i) (ty, limit). add_part G g ps i ty n limit lns config)
                   (parts, index) (transitions config (type_p (parts ! index)) (neighbors g ! n))"
    by (rule detect_interface_foldl)
next
  assume a: "transitions config (type_p (parts ! index)) (neighbors g ! n) \<noteq> []
            \<and> list_all (\<lambda>(ty, limit). \<not> suppressed G g n lns config limit)
                 (transitions config (type_p (parts ! index)) (neighbors g ! n))"
  from a show "type_p (fst (detect_interface G g parts index n lns config)
                         ! snd (detect_interface G g parts index n lns config))
                   = fst (last (transitions config (type_p (parts ! index)) (neighbors g ! n)))"
    using foldl_add_part_type[OF conjunct1[OF a] conjunct2[OF a] assms]
    by (simp only: detect_interface_foldl[OF conjunct1[OF a]])
  from a show "snd (detect_interface G g parts index n lns config)
                   < length (fst (detect_interface G g parts index n lns config))"
    using foldl_add_part_type[OF conjunct1[OF a] conjunct2[OF a] assms]
    by (simp only: detect_interface_foldl[OF conjunct1[OF a]])
next
  assume a: "transitions config (type_p (parts ! index)) (neighbors g ! n) \<noteq> []
            \<and> list_all (\<lambda>(ty, limit). suppressed G g n lns config limit)
                 (transitions config (type_p (parts ! index)) (neighbors g ! n))"
  show "detect_interface G g parts index n lns config = (parts, index)"
    using foldl_add_part_suppressed[OF conjunct2[OF a]]
    by (simp only: detect_interface_foldl[OF conjunct1[OF a]])
qed

text \<open>
  On the tapering skeleton: the middle part turns thin on the edge of widths 120000 to 160000
  and goes on over the edge of widths 160000 to 170000; the first edge takes the thin part at
  the start through a middle part into a thick one, and with \<open>min_part_length\<close> at 450000
  both of its transitions are suppressed.
\<close>

theorem detect_interface_transitions_witness:
  "type_p (fst walk_e ! snd walk_e) = thin
   \<and> walk_d = no_interface taper_skeleton (fst walk_c) (snd walk_c) 6
   \<and> type_p (fst walk_a ! snd walk_a) = thick
   \<and> detect_interface taper_geometry taper_skeleton start_parts 0 0 []
        (wide_config\<lparr>min_part_length := 450000\<rparr>) = (start_parts, 0)"
proof -
  have i1: "snd walk_d < length (fst walk_d)"
    by (simp add: walk_d_facts(1,2))
  have t1: "transitions wide_config (type_p (fst walk_d ! snd walk_d)) (neighbors taper_skeleton ! 8)
              = [(thin, 150000)]"
    by (simp add: walk_d_facts(1,3) transitions_def taper_skeleton_def edge_def wide_config_def)
  have h1: "transitions wide_config (type_p (fst walk_d ! snd walk_d)) (neighbors taper_skeleton ! 8)
              \<noteq> []
            \<and> list_all (\<lambda>(ty, limit). \<not> suppressed taper_geometry taper_skeleton 8 [] wide_config limit)
                 (transitions wide_config (type_p (fst walk_d ! snd walk_d))
                    (neighbors taper_skeleton ! 8))"
    unfolding t1 by (simp add: suppressed_def taper_simps)
  have c1: "type_p (fst walk_e ! snd walk_e) = thin"
    using detect_interface_transitions[OF i1, of wide_config taper_skeleton 8 taper_geometry "[]",
            THEN conjunct2, THEN conjunct2, THEN conjunct1, THEN mp, OF h1, THEN conjunct1]
    unfolding t1 walk_e_def by simp
  have i2: "snd walk_c < length (fst walk_c)"
    by (simp add: walk_c_eq)
  have h2: "transitions wide_config (type_p (fst walk_c ! snd walk_c)) (neighbors taper_skeleton ! 6)
              = []"
    by (simp add: walk_c_eq transitions_def taper_skeleton_def edge_def wide_config_def)
  have c2: "walk_d = no_interface taper_skeleton (fst walk_c) (snd walk_c) 6"
    using detect_interface_transitions[OF i2, of wide_config taper_skeleton 6 taper_geometry "[]",
            THEN conjunct1, THEN mp, OF h2]
    unfolding walk_d_def .
  have i3: "0 < length start_parts"
    by (simp add: start_parts_def)
  have t3: "transitions wide_config (type_p (start_parts ! 0)) (neighbors taper_skeleton ! 0)
              = [(middle, 150000), (thick, 200000)]"
    by (simp add: start_parts_def transitions_def taper_skeleton_def edge_def wide_config_def)
  have h3: "transitions wide_config (type_p (start_parts ! 0)) (neighbors taper_skeleton ! 0) \<noteq> []
            \<and> list_all (\<lambda>(ty, limit). \<not> suppressed taper_geometry taper_skeleton 0 [] wide_config limit)
                 (transitions wide_config (type_p (start_parts ! 0)) (neighbors taper_skeleton ! 0))"
    unfolding t3 by (simp add: suppressed_def taper_simps)
  have c3: "type_p (fst walk_a ! snd walk_a) = thick"
    using detect_interface_transitions[OF i3, of wide_config taper_skeleton 0 taper_geometry "[]",
            THEN conjunct2, THEN conjunct2, THEN conjunct1, THEN mp, OF h3, THEN conjunct1]
    unfolding t3 walk_a_def by simp
  let ?cfg = "wide_config\<lparr>min_part_length := 450000\<rparr>"
  have t4: "transitions ?cfg (type_p (start_parts ! 0)) (neighbors taper_skeleton ! 0)
              = [(middle, 150000), (thick, 200000)]"
    by (simp add: start_parts_def transitions_def taper_skeleton_def edge_def wide_config_def)
  have h4: "transitions ?cfg (type_p (start_parts ! 0)) (neighbors taper_skeleton ! 0) \<noteq> []
            \<and> list_all (\<lambda>(ty, limit). suppressed taper_geometry taper_skeleton 0 [] ?cfg limit)
                 (transitions ?cfg (type_p (start_parts ! 0)) (neighbors taper_skeleton ! 0))"
    unfolding t4 by (simp add: suppressed_def taper_simps)
  have c4: "detect_interface taper_geometry taper_skeleton start_parts 0 0 [] ?cfg = (start_parts, 0)"
    using detect_interface_transitions[OF i3, of ?cfg taper_skeleton 0 taper_geometry "[]",
            THEN conjunct2, THEN conjunct2, THEN conjunct2, THEN mp, OF h4] .
  show ?thesis
    using c1 c2 c3 c4 by (intro conjI)
qed

subsection \<open>Outline sampling\<close>

text \<open>
  A run gets no point when half of its length (or half of the spacing, if that is less) and
  the rounded lengths of its lines together do not exceed the spacing: the points collected
  before the run are handed on as they are.
\<close>

lemma round_coord_nonneg: "0 \<le> r \<Longrightarrow> 0 \<le> round_coord r"
  by (simp add: round_coord_def)

lemma add_samples_short:
  assumes "\<forall>x\<in>set (lengths_r restr). 0 \<le> x"
  shows "set ids \<subseteq> {..<length (lengths_r restr)} \<Longrightarrow>
         last_support + sum_list (map (\<lambda>i. round_coord (lengths_r restr ! i)) ids) \<le> sd \<Longrightarrow>
         add_samples G sd restr ids last_support result =
           Some (result, last_support + sum_list (map (\<lambda>i. round_coord (lengths_r restr ! i)) ids))"
proof (induction ids arbitrary: last_support)
  case Nil
  then show ?case by simp
next
  case (Cons i ids)
  have nn: "0 \<le> sum_list (map (\<lambda>i. round_coord (lengths_r restr ! i)) ids)"
    using Cons.prems(1) assms by (intro sum_list_nonneg) (auto intro!: round_coord_nonneg)
  then have le: "last_support + round_coord (lengths_r restr ! i) \<le> sd"
    using Cons.prems(2) by simp
  have step: "add_sample G sd i restr last_support result
                = Some (result, last_support + round_coord (lengths_r restr ! i))"
    unfolding add_sample_def using le by (subst add_sample_loop.simps) simp
  have "add_samples G sd restr ids (last_support + round_coord (lengths_r restr ! i)) result =
          Some (result, last_support + round_coord (lengths_r restr ! i)
                         + sum_list (map (\<lambda>i. round_coord (lengths_r restr ! i)) ids))"
    using Cons.prems by (intro Cons.IH) (simp_all add: add.assoc)
  then show ?case
    by (simp add: step add.assoc)
qed

lemma sample_run_short:
  assumes "\<forall>l\<in>set lns. 0 \<le> line_length G l"
    and "cdiv (min (to_coord (sum_list (map (line_length G) lns)))
                   (thick_outline_max_distance config)) 2
           + sum_list (map (round_coord \<circ> line_length G) lns)
         \<le> thick_outline_max_distance config"
  shows "sample_run G config is_circle lns result = Some result"
proof -
  let ?restr = "\<lparr>lines_r = lns, lengths_r = map (line_length G) lns,
                  max_align_distance_r = max_align_distance config, circle = is_circle\<rparr>"
  have nonneg: "\<forall>x\<in>set (lengths_r ?restr). 0 \<le> x"
    using assms(1) by simp
  have ids: "set [0 ..< length lns] \<subseteq> {..<length (lengths_r ?restr)}"
    by auto
  have "map (\<lambda>i. round_coord (lengths_r ?restr ! i)) [0 ..< length lns]
          = map (round_coord \<circ> line_length G) lns"
    by (rule nth_equalityI) simp_all
  then have le: "cdiv (min (to_coord (sum_list (map (line_length G) lns)))
                          (thick_outline_max_distance config)) 2
                  + sum_list (map (\<lambda>i. round_coord (lengths_r ?restr ! i)) [0 ..< length lns])
                 \<le> thick_outline_max_distance config"
    using assms(2) by simp
  show ?thesis
    unfolding sample_run_def Let_def
    by (simp only: add_samples_short[OF nonneg ids le]) simp
qed

lemma short_fields_lines:
  "polygon_lines (contour (inner ring_field)) =
     [((50000, 50000), (1050000, 50000)), ((1050000, 50000), (1050000, 1050000)),
      ((1050000, 1050000), (50000, 1050000)), ((50000, 1050000), (50000, 50000))]"
  "inner coast_field = inner ring_field"
  "border coast_field = border ring_field"
  by (simp_all add: ring_field_def coast_field_def polygon_lines_def)

lemma round_coord_of_int: "round_coord (of_int z) = z"
  unfolding round_coord_def by linarith

lemma round_coord_numeral: "round_coord (numeral n) = numeral n"
  using round_coord_of_int[of "numeral n"] by simp

text \<open>
  C9. The claim: every run is sampled at the spacing \<open>thick_outline_max_distance\<close> with the
  first point at half the spacing from its start, also a run shorter than one spacing. The code
  starts a run with \<open>last_support\<close> at half of the run's length (at most half the spacing) and
  places a point where \<open>last_support\<close> plus the length walked exceeds the spacing. The inner
  outline of \<open>ring_field\<close> is a closed run of 4 mm, that of \<open>coast_field\<close> an open run of 3 mm
  of the same square; at the spacing 6 mm the claim puts a point 3 mm from the start of either
  run, and the code returns no point for either. The source notes at this place that a
  sequence of outline is to have one support always. At the spacing 1.5 mm the ring gets its
  first point at half the spacing, 0.75 mm along the first line.
\<close>

theorem sample_outline_short_run_no_point:
  "sample_outline wide_geometry ring_field six_config = Some []
   \<and> sample_outline wide_geometry coast_field six_config = Some []
   \<and> map point (the (sample_outline wide_geometry ring_field
                        (six_config\<lparr>thick_outline_max_distance := 1500000\<rparr>)))
       = [(800000, 50000), (800000, 1050000), (50000, 300000)]"
proof -
  have ring: "sample_run wide_geometry six_config True
                (polygon_lines (contour (inner ring_field))) [] = Some []"
    by (rule sample_run_short)
       (simp_all add: short_fields_lines wide_geometry_def six_config_def wide_config_def
          to_coord_def cdiv_def round_coord_numeral)
  have coast: "sample_run wide_geometry six_config False
                 (take 3 (polygon_lines (contour (inner ring_field)))) [] = Some []"
    by (rule sample_run_short)
       (simp_all add: short_fields_lines wide_geometry_def six_config_def wide_config_def
          to_coord_def cdiv_def round_coord_numeral)
  have c1: "sample_outline wide_geometry ring_field six_config = Some []"
    using ring
    by (simp add: sample_outline_def sample_polygon_def add_circle_sample_def ring_field_def
          upt_rec)
  have c2: "sample_outline wide_geometry coast_field six_config = Some []"
    using coast
    by (simp add: sample_outline_def sample_polygon_def sample_polygon_step_def
          add_lines_samples_def size_sub_def short_fields_lines coast_field_def ring_field_def
          upt_rec)
  have c3: "map point (the (sample_outline wide_geometry ring_field
                        (six_config\<lparr>thick_outline_max_distance := 1500000\<rparr>)))
       = [(800000, 50000), (800000, 1050000), (50000, 300000)]"
    by (simp add: sample_outline_def sample_polygon_def add_circle_sample_def sample_run_def
          add_sample_def add_sample_loop.simps outline_point_def ring_field_def polygon_lines_def
          wide_geometry_def six_config_def wide_config_def to_coord_def cdiv_def
          round_coord_numeral upt_rec Let_def)
  show ?thesis
    using c1 c2 c3 by (intro conjI)
qed

subsection \<open>Two points on the sides of the longest path\<close>

lemma walked_Cons: "walked g (e # es) = to_coord (length_n (neighbors g ! e)) + walked g es"
  by (simp add: walked_def)

lemma walked_Nil: "walked g [] = 0"
  by (simp add: walked_def)

lemma create_position_on_path_width_char:
  "path_neighbors g prev_node rest = Some es \<Longrightarrow> es \<noteq> [] \<Longrightarrow> cap \<le> a + walked g es \<Longrightarrow>
   \<exists>k pos d. k < length es
     \<and> create_position_on_path_width G g lns width cap prev_node a rest = Some (pos, d)
     \<and> (\<forall>i<k. \<not> width_reached G g lns width cap (a + walked g (take i es)) (es ! i)
               \<and> a + walked g (take (Suc i) es) < cap)
     \<and> (if width_reached G g lns width cap (a + walked g (take k es)) (es ! k)
        then pos = get_position_with_width G g (es ! k) width lns
             \<and> d = a + walked g (take k es) + calc_distance g pos
        else cap \<le> a + walked g (take (Suc k) es)
             \<and> pos = \<lparr>neighbor = es ! k,
                      ratio = 1 - of_int (a + walked g (take (Suc k) es) - cap)
                                    / length_n (neighbors g ! (es ! k))\<rparr>
             \<and> d = cap)"
proof (induction rest arbitrary: prev_node a es)
  case Nil
  then show ?case by simp
next
  case (Cons nd rest)
  from Cons.prems(1) obtain n es' where
    n: "get_neighbor g prev_node nd = Some n"
    and es': "path_neighbors g nd rest = Some es'"
    and es: "es = n # es'"
    by (auto split: option.splits)
  let ?pos = "get_position_with_width G g n width lns"
  let ?a' = "a + to_coord (length_n (neighbors g ! n))"
  show ?case
  proof (cases "width_reached G g lns width cap a n")
    case True
    then have "create_position_on_path_width G g lns width cap prev_node a (nd # rest)
                 = Some (?pos, a + calc_distance g ?pos)"
      using n by (simp add: width_reached_def Let_def)
    then show ?thesis
      using True unfolding es
      by (intro exI[of _ 0] exI[of _ ?pos] exI[of _ "a + calc_distance g ?pos"])
         (simp add: walked_Nil)
  next
    case nr: False
    show ?thesis
    proof (cases "?a' \<ge> cap")
      case True
      let ?p = "\<lparr>neighbor = n, ratio = 1 - of_int (?a' - cap) / length_n (neighbors g ! n)\<rparr>"
      have "create_position_on_path_width G g lns width cap prev_node a (nd # rest)
                 = Some (?p, cap)"
        using n nr True by (auto simp: width_reached_def Let_def)
      then show ?thesis
        using nr True unfolding es
        by (intro exI[of _ 0] exI[of _ ?p] exI[of _ cap])
           (simp add: walked_Nil walked_Cons add.assoc)
    next
      case False
      then have lt: "?a' < cap" by simp
      have step: "create_position_on_path_width G g lns width cap prev_node a (nd # rest)
                 = create_position_on_path_width G g lns width cap nd ?a' rest"
        using n nr False by (auto simp: width_reached_def Let_def)
      have le: "cap \<le> ?a' + walked g es'"
        using Cons.prems(3) unfolding es by (simp add: walked_Cons)
      then have ne: "es' \<noteq> []"
        using lt by (auto simp: walked_Nil)
      from Cons.IH[OF es' ne le] obtain k pos d where
        k: "k < length es'"
        and r: "create_position_on_path_width G g lns width cap nd ?a' rest = Some (pos, d)"
        and b: "\<forall>i<k. \<not> width_reached G g lns width cap (?a' + walked g (take i es')) (es' ! i)
                      \<and> ?a' + walked g (take (Suc i) es') < cap"
        and c: "if width_reached G g lns width cap (?a' + walked g (take k es')) (es' ! k)
                then pos = get_position_with_width G g (es' ! k) width lns
                     \<and> d = ?a' + walked g (take k es') + calc_distance g pos
                else cap \<le> ?a' + walked g (take (Suc k) es')
                     \<and> pos = \<lparr>neighbor = es' ! k,
                              ratio = 1 - of_int (?a' + walked g (take (Suc k) es') - cap)
                                            / length_n (neighbors g ! (es' ! k))\<rparr>
                     \<and> d = cap"
        by blast
      have b': "\<not> width_reached G g lns width cap (a + walked g (take i (n # es'))) ((n # es') ! i)
                \<and> a + walked g (take (Suc i) (n # es')) < cap" if "i < Suc k" for i
      proof (cases i)
        case 0
        then show ?thesis using nr lt by (simp add: walked_Nil walked_Cons)
      next
        case (Suc j)
        then have "j < k" using that by simp
        then show ?thesis using b Suc by (simp add: walked_Cons add.assoc)
      qed
      show ?thesis
        unfolding es step
        using k r c b'
        by (intro exI[of _ "Suc k"] exI[of _ pos] exI[of _ d])
           (simp add: walked_Cons add.assoc cong: if_cong)
    qed
  qed
qed

lemma side_position_placed:
  assumes "path_neighbors g (hd path_nodes) (tl path_nodes) = Some es"
    and "es \<noteq> []" and "cap \<le> walked g es"
  shows "\<exists>pos d. side_position G g lns width cap path_nodes = Some (pos, d) \<and> d \<le> cap
           \<and> side_placed G g lns width cap es pos"
proof -
  from assms(1,2) obtain first_node rest where pn: "path_nodes = first_node # rest"
    by (cases path_nodes) auto
  have pe: "path_neighbors g first_node rest = Some es"
    using assms(1) pn by simp
  have le: "cap \<le> 0 + walked g es"
    using assms(3) by simp
  from create_position_on_path_width_char[OF pe assms(2) le, of G lns width]
  obtain k pos d where
    k: "k < length es"
    and r: "create_position_on_path_width G g lns width cap first_node 0 rest = Some (pos, d)"
    and b: "\<forall>i<k. \<not> width_reached G g lns width cap (0 + walked g (take i es)) (es ! i)
                  \<and> 0 + walked g (take (Suc i) es) < cap"
    and c: "if width_reached G g lns width cap (0 + walked g (take k es)) (es ! k)
            then pos = get_position_with_width G g (es ! k) width lns
                 \<and> d = 0 + walked g (take k es) + calc_distance g pos
            else cap \<le> 0 + walked g (take (Suc k) es)
                 \<and> pos = \<lparr>neighbor = es ! k,
                          ratio = 1 - of_int (0 + walked g (take (Suc k) es) - cap)
                                        / length_n (neighbors g ! (es ! k))\<rparr>
                 \<and> d = cap"
    by blast
  have r': "side_position G g lns width cap path_nodes = Some (pos, d)"
    using r pn by (simp add: side_position_def)
  have d: "d \<le> cap"
    using c by (auto simp: width_reached_def split: if_splits)
  have "side_placed G g lns width cap es pos"
    unfolding side_placed_def list_ex_iff list_all_iff
    by (rule bexI[of _ k]) (use k b c in \<open>auto simp: cap_position_def split: if_splits\<close>)
  then show ?thesis
    using r' d by blast
qed

lemma floor_rat_numeral: "\<lfloor>numeral a / numeral b :: rat\<rfloor> = numeral a div numeral b"
  using floor_divide_of_int_eq[of "numeral a" "numeral b", where ?'a = rat] by simp

lemmas wide_simps = floor_rat_numeral
 
  wide_geometry_def wide_skeleton_def wide_path_def wide_island_def wide_config_def
  get_simplified_def get_neighbor_def get_twin_def edge_def to_coord_def calc_distance_def
  side_max_distance_def walked_def

lemma wide_path_neighbors:
  "path_neighbors wide_skeleton (hd (nodes wide_path)) (tl (nodes wide_path)) = Some [0, 2, 4]"
  "path_neighbors wide_skeleton (hd (rev (nodes wide_path))) (tl (rev (nodes wide_path)))
     = Some [5, 3, 1]"
  by (simp_all add: wide_simps)

lemma two_dispatch:
  "get_center (contour (get_simplified wide_geometry wide_island two_config)) (head_radius two_config) = None"
  "create_longest_path wide_geometry (to_lines (get_simplified wide_geometry wide_island two_config))
     = (wide_skeleton, wide_path)"
  "of_int (max_length_for_one_support_point two_config) \<le> length_p wide_path"
  "get_max_width wide_geometry wide_skeleton wide_path < thin_max_width two_config"
  "length_p wide_path < of_int (max_length_for_two_support_points two_config)"
  "side_max_distance wide_path two_config \<le> walked wide_skeleton [0, 2, 4]"
  "side_max_distance wide_path two_config \<le> walked wide_skeleton [5, 3, 1]"
  "get_simplified wide_geometry wide_island two_config = wide_island"
  "min (maximal_distance_from_outline two_config)
     (to_coord (length_p wide_path * max_length_ratio_for_two_support_points two_config)) = 160355"
  by (simp_all add: two_config_def wide_simps get_center_def update_axis_def)

lemma far_dispatch:
  "get_center (contour (get_simplified wide_geometry wide_island far_config)) (head_radius far_config) = None"
  "create_longest_path wide_geometry (to_lines (get_simplified wide_geometry wide_island far_config))
     = (wide_skeleton, wide_path)"
  "of_int (max_length_for_one_support_point far_config) \<le> length_p wide_path"
  "get_max_width wide_geometry wide_skeleton wide_path < thin_max_width far_config"
  "length_p wide_path < of_int (max_length_for_two_support_points far_config)"
  "side_max_distance wide_path far_config \<le> walked wide_skeleton [0, 2, 4]"
  "side_max_distance wide_path far_config \<le> walked wide_skeleton [5, 3, 1]"
  "get_simplified wide_geometry wide_island far_config = wide_island"
  "min (maximal_distance_from_outline far_config)
     (to_coord (length_p wide_path * max_length_ratio_for_two_support_points far_config)) = 160355"
  by (simp_all add: far_config_def wide_simps get_center_def update_axis_def)

lemma two_placed:
  "side_placed wide_geometry wide_skeleton lns 60000 160355 [0, 2, 4] pos
     \<Longrightarrow> pos = \<lparr>neighbor = 0, ratio = 3 / 5\<rparr>"
  "side_placed wide_geometry wide_skeleton lns 60000 160355 [5, 3, 1] pos
     \<Longrightarrow> pos = \<lparr>neighbor = 5, ratio = 3 / 5\<rparr>"
  by (simp_all add: side_placed_def width_reached_def cap_position_def wide_simps upt_rec
        split: if_splits)

lemma far_placed:
  "side_placed wide_geometry wide_skeleton lns 800000 160355 [0, 2, 4] pos
     \<Longrightarrow> pos = \<lparr>neighbor = 2, ratio = 89645 / 500000\<rparr>"
  "side_placed wide_geometry wide_skeleton lns 800000 160355 [5, 3, 1] pos
     \<Longrightarrow> pos = \<lparr>neighbor = 3, ratio = 89645 / 500000\<rparr>"
  by (simp_all add: side_placed_def width_reached_def cap_position_def wide_simps upt_rec
        split: if_splits)

lemma wide_edge_points:
  "create_edge_point wide_geometry wide_skeleton \<lparr>neighbor = 0, ratio = 3 / 5\<rparr> = (30000, 30000)"
  "create_edge_point wide_geometry wide_skeleton \<lparr>neighbor = 5, ratio = 3 / 5\<rparr> = (570000, 30000)"
  "create_edge_point wide_geometry wide_skeleton \<lparr>neighbor = 2, ratio = 89645 / 500000\<rparr>
     = (139645, 50000)"
  "create_edge_point wide_geometry wide_skeleton \<lparr>neighbor = 3, ratio = 89645 / 500000\<rparr>
     = (460355, 50000)"
  by (simp_all add: wide_simps edge_point_def wide_nodes_def)

lemma walked_take_Suc:
  "k < length es \<Longrightarrow>
     walked g (take (Suc k) es) = walked g (take k es) + to_coord (length_n (neighbors g ! (es ! k)))"
  by (simp add: walked_def take_Suc_conv_app_nth)

lemma cap_position_distance:
  assumes "k < length es" and "0 < length_n (neighbors g ! (es ! k))"
    and "walked g (take k es) \<le> cap" and "cap \<le> walked g (take (Suc k) es)"
  shows "walked g (take k es) + calc_distance g (cap_position g cap es k) = cap"
proof -
  let ?len = "length_n (neighbors g ! (es ! k))"
  let ?m = "cap - walked g (take k es)"
  have t: "to_coord ?len = \<lfloor>?len\<rfloor>"
    using assms(2) by (simp add: to_coord_def)
  have "ratio (cap_position g cap es k) * ?len = ?len - of_int (walked g (take (Suc k) es) - cap)"
    using assms(2) by (simp add: cap_position_def field_simps)
  also have "\<dots> = (?len - of_int \<lfloor>?len\<rfloor>) + of_int ?m"
    using walked_take_Suc[OF assms(1), of g] t by simp
  finally have r: "ratio (cap_position g cap es k) * ?len = (?len - of_int \<lfloor>?len\<rfloor>) + of_int ?m" .
  have nn: "0 \<le> (?len - of_int \<lfloor>?len\<rfloor>) + of_int ?m"
    using assms(3) by (simp add: add_nonneg_nonneg)
  have "\<lfloor>(?len - of_int \<lfloor>?len\<rfloor>) + of_int ?m\<rfloor> = ?m"
    by linarith
  then have "calc_distance g (cap_position g cap es k) = ?m"
    using nn r by (simp add: calc_distance_def to_coord_def cap_position_def)
  then show ?thesis by simp
qed

text \<open>
  C5. When the bounding-box test fails, the longest path is not shorter than
  \<open>max_length_for_one_support_point\<close>, its width stays below \<open>thin_max_width\<close> and its length
  below \<open>max_length_for_two_support_points\<close>, the result is exactly two fixed points of type
  \<open>two_points\<close>, one for each end of the longest path. Each stands where \<open>side_placed\<close> says,
  for the width \<open>2 * head_radius\<close> and the cap
  \<open>min maximal_distance_from_outline (length * max_length_ratio_for_two_support_points)\<close>: at the
  position of that width on the first edge from its end that gets as wide, when this position is
  closer to the end than the cap, and at the cap otherwise (\<open>cap_position_distance\<close>: the
  distance of that position from the end, as the code measures it, is the cap). The path is
  taken to be connected and at least as long as the cap from both ends, as the source asserts.
\<close>

theorem uniform_support_island_two_points:
  assumes "get_center (contour (get_simplified G island config)) (head_radius config) = None"
    and "create_longest_path G (to_lines (get_simplified G island config)) = (g, path)"
    and "of_int (max_length_for_one_support_point config) \<le> length_p path"
    and "get_max_width G g path < thin_max_width config"
    and "length_p path < of_int (max_length_for_two_support_points config)"
    and "path_neighbors g (hd (nodes path)) (tl (nodes path)) = Some es"
    and "path_neighbors g (hd (rev (nodes path))) (tl (rev (nodes path))) = Some rs"
    and "es \<noteq> []" and "rs \<noteq> []"
    and "side_max_distance path config \<le> walked g es"
    and "side_max_distance path config \<le> walked g rs"
  shows "\<exists>pos1 pos2.
           uniform_support_island G E island config =
             Some [\<lparr>point = create_edge_point G g pos1, type = two_points, movement = NoMove\<rparr>,
                   \<lparr>point = create_edge_point G g pos2, type = two_points, movement = NoMove\<rparr>]
           \<and> side_placed G g (to_lines (get_simplified G island config)) (2 * head_radius config)
               (min (maximal_distance_from_outline config)
                    (to_coord (length_p path * max_length_ratio_for_two_support_points config)))
               es pos1
           \<and> side_placed G g (to_lines (get_simplified G island config)) (2 * head_radius config)
               (min (maximal_distance_from_outline config)
                    (to_coord (length_p path * max_length_ratio_for_two_support_points config)))
               rs pos2"
proof -
  let ?lns = "to_lines (get_simplified G island config)"
  let ?cap = "side_max_distance path config"
  let ?width = "2 * head_radius config"
  from side_position_placed[OF assms(6,8,10), of G ?lns ?width]
  obtain pos1 d1 where
    p1: "side_position G g ?lns ?width ?cap (nodes path) = Some (pos1, d1)"
    and s1: "side_placed G g ?lns ?width ?cap es pos1"
    by blast
  from side_position_placed[OF assms(7,9,11), of G ?lns ?width]
  obtain pos2 d2 where
    p2: "side_position G g ?lns ?width ?cap (rev (nodes path)) = Some (pos2, d2)"
    and s2: "side_placed G g ?lns ?width ?cap rs pos2"
    by blast
  have "create_side_points G g path ?lns config two_points =
          Some [create_no_move_point G g pos1 two_points, create_no_move_point G g pos2 two_points]"
    using p1 p2 by (simp add: create_side_points_def Let_def)
  then have "uniform_support_island G E island config =
          Some [create_no_move_point G g pos1 two_points, create_no_move_point G g pos2 two_points]"
    using assms(1-5) by (simp add: uniform_support_island_def Let_def)
  then show ?thesis
    using s1 s2 unfolding create_no_move_point_def side_max_distance_def by blast
qed

text \<open>
  On the rectangle: with the small head both points stand on the corner bisectors where the
  island is 0.06 mm wide; with the large head both stand on the axis, 160355 from their ends.
\<close>

theorem uniform_support_island_two_points_witness:
  "uniform_support_island wide_geometry strip_geometry wide_island two_config =
     Some [\<lparr>point = (30000, 30000), type = two_points, movement = NoMove\<rparr>,
           \<lparr>point = (570000, 30000), type = two_points, movement = NoMove\<rparr>]
   \<and> uniform_support_island wide_geometry strip_geometry wide_island far_config =
     Some [\<lparr>point = (139645, 50000), type = two_points, movement = NoMove\<rparr>,
           \<lparr>point = (460355, 50000), type = two_points, movement = NoMove\<rparr>]"
proof -
  have w: "2 * head_radius two_config = 60000" "2 * head_radius far_config = 800000"
    by (simp_all add: two_config_def far_config_def wide_config_def)
  have ne: "[0, 2, 4] \<noteq> ([]::nat list)" "[5, 3, 1] \<noteq> ([]::nat list)"
    by simp_all
  from uniform_support_island_two_points[OF two_dispatch(1-5) wide_path_neighbors ne
         two_dispatch(6,7), of strip_geometry]
  obtain a1 a2 where
    ta: "uniform_support_island wide_geometry strip_geometry wide_island two_config =
       Some [\<lparr>point = create_edge_point wide_geometry wide_skeleton a1, type = two_points,
               movement = NoMove\<rparr>,
             \<lparr>point = create_edge_point wide_geometry wide_skeleton a2, type = two_points,
               movement = NoMove\<rparr>]"
    and "side_placed wide_geometry wide_skeleton (to_lines wide_island) 60000 160355 [0, 2, 4] a1"
    and "side_placed wide_geometry wide_skeleton (to_lines wide_island) 60000 160355 [5, 3, 1] a2"
    unfolding two_dispatch(8,9) w by blast
  then have a: "a1 = \<lparr>neighbor = 0, ratio = 3 / 5\<rparr>" "a2 = \<lparr>neighbor = 5, ratio = 3 / 5\<rparr>"
    by (simp_all only: two_placed)
  from uniform_support_island_two_points[OF far_dispatch(1-5) wide_path_neighbors ne
         far_dispatch(6,7), of strip_geometry]
  obtain b1 b2 where
    tb: "uniform_support_island wide_geometry strip_geometry wide_island far_config =
       Some [\<lparr>point = create_edge_point wide_geometry wide_skeleton b1, type = two_points,
               movement = NoMove\<rparr>,
             \<lparr>point = create_edge_point wide_geometry wide_skeleton b2, type = two_points,
               movement = NoMove\<rparr>]"
    and "side_placed wide_geometry wide_skeleton (to_lines wide_island) 800000 160355 [0, 2, 4] b1"
    and "side_placed wide_geometry wide_skeleton (to_lines wide_island) 800000 160355 [5, 3, 1] b2"
    unfolding far_dispatch(8,9) w by blast
  then have b: "b1 = \<lparr>neighbor = 2, ratio = 89645 / 500000\<rparr>"
    "b2 = \<lparr>neighbor = 3, ratio = 89645 / 500000\<rparr>"
    by (simp_all only: far_placed)
  show ?thesis
    unfolding ta tb a b wide_edge_points by simp
qed

end
